theory Spec2Isabelle
  imports Main "HOL-Library.Sublist"
begin

section \<open>Python strings\<close>

text \<open>
  A Python \<open>str\<close> is a sequence of Unicode code points.  A code point is a natural
  number, a string is a list of them, and a literal of the source is written
  \<open>py ''...''\<close>; code points beyond ASCII are written as numbers.
\<close>

type_synonym str = "nat list"

definition py :: "string \<Rightarrow> str" where
  "py s = map of_char s"

text \<open>An exception is represented by the text that \<open>str(e)\<close> (and so \<open>f"{e}"\<close>) gives.\<close>

datatype exn = Exception (message: str)

text \<open>
  \<open>str.isspace\<close> on one code point: the characters that \<open>str.strip()\<close> without an
  argument removes (CPython's \<open>_PyUnicode_IsWhitespace\<close>).
\<close>

definition isspace :: "nat \<Rightarrow> bool" where
  "isspace c \<longleftrightarrow>
     (9 \<le> c \<and> c \<le> 13) \<or> (28 \<le> c \<and> c \<le> 32) \<or> c = 133 \<or> c = 160 \<or> c = 5760 \<or>
     (8192 \<le> c \<and> c \<le> 8202) \<or> c = 8232 \<or> c = 8233 \<or> c = 8239 \<or> c = 8287 \<or> c = 12288"

definition lstrip :: "str \<Rightarrow> str" where
  "lstrip s = dropWhile isspace s"

definition rstrip :: "str \<Rightarrow> str" where
  "rstrip s = rev (dropWhile isspace (rev s))"

text \<open>\<open>s.strip()\<close>: leading and trailing whitespace removed.\<close>

definition strip :: "str \<Rightarrow> str" where
  "strip s = rstrip (lstrip s)"

text \<open>\<open>sub in s\<close>: \<open>sub\<close> occurs in \<open>s\<close> as a contiguous substring.\<close>

fun py_in :: "str \<Rightarrow> str \<Rightarrow> bool" where
  "py_in sub [] = (sub = [])"
| "py_in sub (c # cs) = (prefix sub (c # cs) \<or> py_in sub cs)"

text \<open>
  \<open>s.replace(old, new)\<close>: every occurrence of \<open>old\<close>, found from left to right and not
  overlapping an earlier one, becomes \<open>new\<close>.  With an empty \<open>old\<close>, Python puts
  \<open>new\<close> before every character and at the end.
\<close>

function replace :: "str \<Rightarrow> str \<Rightarrow> str \<Rightarrow> str" where
  "replace old new [] = (if old = [] then new else [])"
| "replace old new (c # cs) =
     (if old = [] then new @ c # replace old new cs
      else if prefix old (c # cs) then new @ replace old new (drop (length old) (c # cs))
      else c # replace old new cs)"
  by pat_completeness auto
termination
  by (relation "measure (\<lambda>(old, new, s). length s)") auto

text \<open>
  The first occurrence of a non-empty \<open>sep\<close> in \<open>s\<close>: the text before it and the text
  after it, or \<open>None\<close> when there is none.
\<close>

fun find_first :: "str \<Rightarrow> str \<Rightarrow> (str \<times> str) option" where
  "find_first sep [] = None"
| "find_first sep (c # cs) =
     (if prefix sep (c # cs) then Some ([], drop (length sep) (c # cs))
      else map_option (\<lambda>(before, after). (c # before, after)) (find_first sep cs))"

text \<open>
  \<open>s.split(sep, 1)\<close>: at most one split, at the first occurrence of \<open>sep\<close>.  An empty
  separator raises \<open>ValueError\<close>.
\<close>

definition split_1 :: "str \<Rightarrow> str \<Rightarrow> exn + str list" where
  "split_1 sep s =
     (if sep = [] then Inl (Exception (py ''empty separator''))
      else case find_first sep s of
             None \<Rightarrow> Inr [s]
           | Some (before, after) \<Rightarrow> Inr [before, after])"

text \<open>\<open>xs[1]\<close> on a list: \<open>IndexError\<close> when there is no second element.\<close>

definition index_1 :: "str list \<Rightarrow> exn + str" where
  "index_1 xs =
     (if 1 < length xs then Inr (xs ! 1)
      else Inl (Exception (py ''list index out of range'')))"

section \<open>The markers of the response clean-up\<close>

definition FENCE_HTML :: str where
  "FENCE_HTML = py ''```html''"

definition FENCE :: str where
  "FENCE = py ''```''"

definition DOCTYPE :: str where
  "DOCTYPE = py ''<!DOCTYPE html>''"

definition HTML_TAG :: str where
  "HTML_TAG = py ''<html''"

section \<open>The response clean-up of \<open>generate_html_with_llm\<close>\<close>

text \<open>
  \<open>app-gemini.py\<close>, lines 74 to 85, and \<open>app-groq.py\<close>, lines 94 to 105, which are
  the same statements: strip, remove the fences, and cut what precedes the document.
  The argument is the text the model returned.  \<open>remove_fences\<close> is the statement
  \<open>generated_html.replace('```html', '').replace('```', '')\<close>, and
  \<open>cut_before marker\<close> is the expression
  \<open>marker + generated_html.split(marker, 1)[1]\<close>, whose \<open>ValueError\<close> and
  \<open>IndexError\<close> are results of the model.
\<close>

definition remove_fences :: "str \<Rightarrow> str" where
  "remove_fences generated_html = replace FENCE [] (replace FENCE_HTML [] generated_html)"

definition cut_before :: "str \<Rightarrow> str \<Rightarrow> exn + str" where
  "cut_before marker generated_html =
     (case split_1 marker generated_html of
        Inl e \<Rightarrow> Inl e
      | Inr parts \<Rightarrow>
          (case index_1 parts of
             Inl e \<Rightarrow> Inl e
           | Inr rest \<Rightarrow> Inr (marker @ rest)))"

definition gemini_sanitize :: "str \<Rightarrow> exn + str" where
  "gemini_sanitize text =
     (let generated_html = strip text;
          generated_html = remove_fences generated_html
      in if py_in DOCTYPE generated_html then cut_before DOCTYPE generated_html
         else if py_in HTML_TAG generated_html then cut_before HTML_TAG generated_html
         else Inr generated_html)"

definition groq_sanitize :: "str \<Rightarrow> exn + str" where
  "groq_sanitize content =
     (let generated_html = strip content;
          generated_html = remove_fences generated_html
      in if py_in DOCTYPE generated_html then cut_before DOCTYPE generated_html
         else if py_in HTML_TAG generated_html then cut_before HTML_TAG generated_html
         else Inr generated_html)"

text \<open>
  \<open>app-mercury.py\<close>, lines 72 to 75: strip and remove the fences; nothing is cut.
\<close>

definition mercury_sanitize :: "str \<Rightarrow> exn + str" where
  "mercury_sanitize content =
     (let generated_html = strip content;
          generated_html = remove_fences generated_html
      in Inr generated_html)"

section \<open>Numbers in text\<close>

text \<open>\<open>str(n)\<close> for an integer, as an f-string prints it: decimal digits, a minus sign first.\<close>

fun str_nat :: "nat \<Rightarrow> str" where
  "str_nat n = (if n < 10 then [48 + n] else str_nat (n div 10) @ [48 + n mod 10])"

declare str_nat.simps [simp del]

definition str_int :: "int \<Rightarrow> str" where
  "str_int i = (if i < 0 then 45 # str_nat (nat (- i)) else str_nat (nat i))"

section \<open>The process and its state\<close>

text \<open>
  The module-level variables of one running application: the API key read at startup,
  the global \<open>current_system_prompt\<close>, the lines written by \<open>print\<close> (oldest first),
  and the calls made to the model provider so far (oldest first), each with the texts
  it sent.  \<open>print\<close> appends a line and raises nothing.
\<close>

record app =
  api_key :: str
  current_system_prompt :: str
  stdout :: "str list"
  upstream_calls :: "str list list"

text \<open>
  Running a module either ends in \<open>exit()\<close>, with what was printed before, or reaches
  \<open>app.run\<close> with the state built on the way.
\<close>

datatype process = Exited "str list" | Serving app

text \<open>\<open>os.environ.get(name, default)\<close>\<close>

definition environ_get :: "(str \<rightharpoonup> str) \<Rightarrow> str \<Rightarrow> str \<Rightarrow> str" where
  "environ_get environ name fallback = (case environ name of None \<Rightarrow> fallback | Some v \<Rightarrow> v)"

text \<open>\<open>s[-4:]\<close>: the last four characters, or all of \<open>s\<close> when it is shorter.\<close>

definition last_4 :: "str \<Rightarrow> str" where
  "last_4 s = drop (length s - 4) s"

subsection \<open>Initial system prompts\<close>

text \<open>\<open>app-gemini.py\<close>, lines 28 to 36; \<open>app-mercury.py\<close>, lines 25 to 33, has the same text.\<close>

definition gemini_initial_prompt :: str where
  \<open>gemini_initial_prompt =
     py ''You are a professional web developer. Your task is to generate complete, '' @
     py ''modern, and well-structured HTML for a web page based on the user's request. '' @
     py ''You must include the full HTML structure, including <!DOCTYPE html>, <html>, '' @
     py ''<head>, and <body> tags. Use Tailwind CSS for styling by including the '' @
     py ''official Tailwind CDN link in the <head> section. Always include clickable '' @
     py ''buttons and navigation links to other pages. Make sure all buttons are functional '' @
     py ''and lead to relevant pages.''\<close>

definition mercury_initial_prompt :: str where
  \<open>mercury_initial_prompt =
     py ''You are a professional web developer. Your task is to generate complete, '' @
     py ''modern, and well-structured HTML for a web page based on the user's request. '' @
     py ''You must include the full HTML structure, including <!DOCTYPE html>, <html>, '' @
     py ''<head>, and <body> tags. Use Tailwind CSS for styling by including the '' @
     py ''official Tailwind CDN link in the <head> section. Always include clickable '' @
     py ''buttons and navigation links to other pages. Make sure all buttons are functional '' @
     py ''and lead to relevant pages.''\<close>

text \<open>\<open>app-groq.py\<close>, lines 28 to 56.\<close>

definition groq_initial_prompt :: str where
  \<open>groq_initial_prompt =
     py ''You are an elite UI/UX architect and full-stack developer specializing in cutting-edge web experiences. '' @
     py ''Create stunning, modern HTML pages that push the boundaries of web design. Your output must be:'' @
     py ''\<newline>'' @
     py ''\<newline>'' @
     [0x1F3A8] @
     py '' VISUAL EXCELLENCE:'' @
     py ''- Use advanced Tailwind CSS with custom animations, gradients, and glassmorphism effects'' @
     py ''- Implement dark/light mode toggle with smooth transitions'' @
     py ''- Add subtle parallax scrolling, hover animations, and micro-interactions'' @
     py ''- Use modern typography with variable fonts and perfect spacing'' @
     py ''- Include beautiful hero sections with animated backgrounds'' @
     py ''\<newline>'' @
     py ''\<newline>'' @
     [0x26A1] @
     py '' INTERACTIVE COMPONENTS:'' @
     py ''- Create responsive navigation with mobile hamburger menu'' @
     py ''- Add interactive cards, modals, and dropdown menus'' @
     py ''- Implement smooth scroll behavior and section transitions'' @
     py ''- Include loading animations and skeleton screens'' @
     py ''- Add interactive forms with real-time validation styling'' @
     py ''\<newline>'' @
     py ''\<newline>'' @
     [0x1F680] @
     py '' MODERN FEATURES:'' @
     py ''- Use CSS Grid and Flexbox for perfect layouts'' @
     py ''- Implement progressive disclosure and accordion components'' @
     py ''- Add search functionality with live filtering'' @
     py ''- Include social media integration and sharing buttons'' @
     py ''- Create interactive dashboards with charts and metrics'' @
     py ''\<newline>'' @
     py ''\<newline>'' @
     [0x1F4F1] @
     py '' RESPONSIVE DESIGN:'' @
     py ''- Mobile-first approach with perfect tablet and desktop scaling'' @
     py ''- Touch-friendly interactions and gesture support'' @
     py ''- Optimized performance with lazy loading'' @
     py ''\<newline>'' @
     py ''\<newline>'' @
     py ''Always include complete HTML structure with <!DOCTYPE html>, proper meta tags, '' @
     py ''Tailwind CSS CDN, and ensure all interactive elements are functional. '' @
     py ''Make every page feel like a premium, modern web application.''\<close>

subsection \<open>Startup\<close>

text \<open>\<open>app-gemini.py\<close>, lines 10 to 36.\<close>

definition gemini_startup :: "(str \<rightharpoonup> str) \<Rightarrow> process" where
  \<open>gemini_startup environ =
     (let GOOGLE_API_KEY = environ_get environ (py ''GOOGLE_API_KEY'') []
      in if GOOGLE_API_KEY = [] \<or> GOOGLE_API_KEY = py ''your-fallback-api-key-here'' then
           Exited [py ''ERROR: The Google API key is not set.'',
                   py ''Please set it as an environment variable (GOOGLE_API_KEY).'']
         else
           Serving \<lparr>api_key = GOOGLE_API_KEY,
                    current_system_prompt = gemini_initial_prompt,
                    stdout = [py ''Using Google API key: '' @
                              take 10 GOOGLE_API_KEY @
                              py ''...'' @
                              last_4 GOOGLE_API_KEY],
                    upstream_calls = []\<rparr>)\<close>

text \<open>
  \<open>app-groq.py\<close>, lines 10 to 56: the check prints a warning and nothing stops the
  module.
\<close>

definition groq_startup :: "(str \<rightharpoonup> str) \<Rightarrow> process" where
  \<open>groq_startup environ =
     (let GROQ_API_KEY = environ_get environ (py ''GROQ_API_KEY'') [];
          printed =
            (if GROQ_API_KEY = [] \<or> GROQ_API_KEY = [] then
               [py ''WARNING: Using fallback Groq API key. Please set GROQ_API_KEY environment variable for production use.'']
             else
               [py ''Using Groq API key: '' @
                take 10 GROQ_API_KEY @
                py ''...'' @
                last_4 GROQ_API_KEY]);
          printed = printed @
               [py ''Groq API key configured: '' @
                take 10 GROQ_API_KEY @
                py ''...'' @
                last_4 GROQ_API_KEY]
      in Serving \<lparr>api_key = GROQ_API_KEY,
                  current_system_prompt = groq_initial_prompt,
                  stdout = printed,
                  upstream_calls = []\<rparr>)\<close>

text \<open>\<open>app-mercury.py\<close>, lines 10 to 33.\<close>

definition mercury_startup :: "(str \<rightharpoonup> str) \<Rightarrow> process" where
  \<open>mercury_startup environ =
     (let INCEPTION_API_KEY = environ_get environ (py ''INCEPTION_API_KEY'') []
      in if INCEPTION_API_KEY = [] \<or> INCEPTION_API_KEY = [] then
           Exited [py ''ERROR: The Inception Labs API key is not set.'',
                   py ''Please set it as an environment variable (INCEPTION_API_KEY).'']
         else
           Serving \<lparr>api_key = INCEPTION_API_KEY,
                    current_system_prompt = mercury_initial_prompt,
                    stdout = [py ''Using API key: '' @
                              take 10 INCEPTION_API_KEY @
                              py ''...'' @
                              last_4 INCEPTION_API_KEY],
                    upstream_calls = []\<rparr>)\<close>

section \<open>Calling the model: \<open>generate_html_with_llm\<close>\<close>

text \<open>
  The provider is outside the program.  A call is modelled by a function from the calls
  made so far, the present one included, to what the client library gives back: the
  generated text, or an exception.
\<close>

type_synonym upstream = "str list list \<Rightarrow> exn + str"

definition SEPARATOR :: str where
  \<open>SEPARATOR = py ''\<newline>\<newline>---USER REQUEST---\<newline>''\<close>

subsection \<open>\<open>app-gemini.py\<close>, lines 39 to 89\<close>

definition GEMINI_PREAMBLE :: str where
  \<open>GEMINI_PREAMBLE =
     py ''Generate ONLY complete, functional HTML code. Do not include any explanations, comments, or text before/after the HTML. Start directly with <!DOCTYPE html> and end with </html>. No markdown formatting.\<newline>'' @
     py ''\<newline>''\<close>

definition gemini_except :: "app \<Rightarrow> exn \<Rightarrow> app \<times> str" where
  \<open>gemini_except st e =
     (st\<lparr>stdout := stdout st @
        [py ''An unexpected error occurred with the Google Gemini API: '' @
         message e]\<rparr>,
        py ''<h1>Error: Could not connect to the Google Gemini API</h1><p>'' @
        message e @
        py ''</p>'')\<close>

definition gemini_generate_html_with_llm :: "upstream \<Rightarrow> app \<Rightarrow> str \<Rightarrow> app \<times> str" where
  "gemini_generate_html_with_llm generate_content st page_prompt =
     (let full_prompt = current_system_prompt st @ SEPARATOR @ page_prompt;
          clean_prompt = GEMINI_PREAMBLE @ full_prompt;
          st = st\<lparr>upstream_calls := upstream_calls st @ [[clean_prompt]]\<rparr>
      in case generate_content (upstream_calls st) of
           Inl e \<Rightarrow> gemini_except st e
         | Inr response_text \<Rightarrow>
             (case gemini_sanitize response_text of
                Inl e \<Rightarrow> gemini_except st e
              | Inr generated_html \<Rightarrow> (st, generated_html)))"

subsection \<open>\<open>app-groq.py\<close>, lines 59 to 109\<close>

definition GROQ_SYSTEM_MESSAGE :: str where
  \<open>GROQ_SYSTEM_MESSAGE =
     py ''You are an elite UI/UX architect. Generate ONLY complete, functional HTML code. Do not include any explanations, comments, or text before/after the HTML. Start directly with <!DOCTYPE html> and end with </html>. No markdown formatting.''\<close>

definition groq_except :: "app \<Rightarrow> exn \<Rightarrow> app \<times> str" where
  \<open>groq_except st e =
     (st\<lparr>stdout := stdout st @
        [py ''An unexpected error occurred with the Groq API: '' @
         message e]\<rparr>,
        py ''<h1>Error: Could not connect to the Groq API</h1><p>'' @
        message e @
        py ''</p>'')\<close>

definition groq_generate_html_with_llm :: "upstream \<Rightarrow> app \<Rightarrow> str \<Rightarrow> app \<times> str" where
  "groq_generate_html_with_llm create st page_prompt =
     (let full_prompt = current_system_prompt st @ SEPARATOR @ page_prompt;
          st = st\<lparr>upstream_calls := upstream_calls st @ [[GROQ_SYSTEM_MESSAGE, full_prompt]]\<rparr>
      in case create (upstream_calls st) of
           Inl e \<Rightarrow> groq_except st e
         | Inr content \<Rightarrow>
             (case groq_sanitize content of
                Inl e \<Rightarrow> groq_except st e
              | Inr generated_html \<Rightarrow> (st, generated_html)))"

subsection \<open>\<open>app-mercury.py\<close>, lines 36 to 83\<close>

text \<open>
  What \<open>requests.post\<close> returns: the status code, the body as text, and what
  \<open>response.json()['choices'][0]['message']['content']\<close> evaluates to, a text or an
  exception when the body is not of that shape.
\<close>

record http_response =
  status_code :: int
  response_text :: str
  json_content :: "exn + str"

type_synonym http_upstream = "str list list \<Rightarrow> exn + http_response"

definition mercury_except :: "app \<Rightarrow> exn \<Rightarrow> app \<times> str" where
  \<open>mercury_except st e =
     (st\<lparr>stdout := stdout st @
        [py ''An unexpected error occurred with the Inception Labs API: '' @
         message e]\<rparr>,
        py ''<h1>Error: Could not connect to the Inception Labs API</h1><p>'' @
        message e @
        py ''</p>'')\<close>

definition mercury_generate_html_with_llm :: "http_upstream \<Rightarrow> app \<Rightarrow> str \<Rightarrow> app \<times> str" where
  \<open>mercury_generate_html_with_llm post st page_prompt =
     (let full_prompt = current_system_prompt st @ SEPARATOR @ page_prompt;
          st = st\<lparr>upstream_calls := upstream_calls st @ [[full_prompt]]\<rparr>
      in case post (upstream_calls st) of
           Inl e \<Rightarrow> mercury_except st e
         | Inr response \<Rightarrow>
             if status_code response = 200 then
               (case json_content response of
                  Inl e \<Rightarrow> mercury_except st e
                | Inr content \<Rightarrow>
                    (case mercury_sanitize content of
                       Inl e \<Rightarrow> mercury_except st e
                     | Inr generated_html \<Rightarrow> (st, generated_html)))
             else
               (st\<lparr>stdout := stdout st @
                  [py ''API request failed with status code: '' @
                   str_int (status_code response),
                   py ''Response: '' @
                   response_text response]\<rparr>,
                py ''<h1>Error: API request failed</h1><p>Status code: '' @
                str_int (status_code response) @
                py ''</p>''))\<close>

section \<open>The prompt editor: \<open>change_prompt\<close>\<close>

text \<open>
  The part of a Flask request that the route reads: the method and the form fields.
  The route is the same text in the three files (\<open>app-gemini.py\<close>, lines 93 to 148).
\<close>

record request =
  http_method :: str
  form :: "str \<rightharpoonup> str"

definition PROMPT_UPDATED_PAGE :: str where
  \<open>PROMPT_UPDATED_PAGE =
     py ''\<newline>'' @
     py ''            <!DOCTYPE html>\<newline>'' @
     py ''            <html>\<newline>'' @
     py ''            <head>\<newline>'' @
     py ''                <title>Prompt Updated</title>\<newline>'' @
     py ''                <script src="https://cdn.tailwindcss.com"></script>\<newline>'' @
     py ''            </head>\<newline>'' @
     py ''            <body class="bg-gray-100 p-8">\<newline>'' @
     py ''                <div class="max-w-2xl mx-auto bg-white p-6 rounded-lg shadow-lg">\<newline>'' @
     py ''                    <h1 class="text-2xl font-bold text-green-600 mb-4">System Prompt Updated Successfully!</h1>\<newline>'' @
     py ''                    <p class="mb-4">The new system prompt has been applied.</p>\<newline>'' @
     py ''                    <div class="space-x-4">\<newline>'' @
     py ''                        <a href="/" class="bg-blue-500 hover:bg-blue-700 text-white font-bold py-2 px-4 rounded">Go to Home</a>\<newline>'' @
     py ''                        <a href="/change-prompt" class="bg-gray-500 hover:bg-gray-700 text-white font-bold py-2 px-4 rounded">Change Prompt Again</a>\<newline>'' @
     py ''                    </div>\<newline>'' @
     py ''                </div>\<newline>'' @
     py ''            </body>\<newline>'' @
     py ''            </html>\<newline>'' @
     py ''            ''\<close>

definition change_prompt_form :: "app \<Rightarrow> str" where
  \<open>change_prompt_form st =
     py ''\<newline>'' @
     py ''    <!DOCTYPE html>\<newline>'' @
     py ''    <html>\<newline>'' @
     py ''    <head>\<newline>'' @
     py ''        <title>Change System Prompt</title>\<newline>'' @
     py ''        <script src="https://cdn.tailwindcss.com"></script>\<newline>'' @
     py ''    </head>\<newline>'' @
     py ''    <body class="bg-gray-100 p-8">\<newline>'' @
     py ''        <div class="max-w-4xl mx-auto bg-white p-6 rounded-lg shadow-lg">\<newline>'' @
     py ''            <h1 class="text-3xl font-bold mb-6">Change System Prompt</h1>\<newline>'' @
     py ''            <form method="POST" class="space-y-4">\<newline>'' @
     py ''                <div>\<newline>'' @
     py ''                    <label for="new_prompt" class="block text-sm font-medium text-gray-700 mb-2">Current System Prompt:</label>\<newline>'' @
     py ''                    <textarea name="new_prompt" id="new_prompt" rows="10" class="w-full p-3 border border-gray-300 rounded-md focus:ring-blue-500 focus:border-blue-500">'' @
     current_system_prompt st @
     py ''</textarea>\<newline>'' @
     py ''                </div>\<newline>'' @
     py ''                <div class="space-x-4">\<newline>'' @
     py ''                    <button type="submit" class="bg-green-500 hover:bg-green-700 text-white font-bold py-2 px-4 rounded">Update Prompt</button>\<newline>'' @
     py ''                    <a href="/" class="bg-gray-500 hover:bg-gray-700 text-white font-bold py-2 px-4 rounded inline-block">Cancel</a>\<newline>'' @
     py ''                </div>\<newline>'' @
     py ''            </form>\<newline>'' @
     py ''        </div>\<newline>'' @
     py ''    </body>\<newline>'' @
     py ''    </html>\<newline>'' @
     py ''    ''\<close>

definition change_prompt :: "app \<Rightarrow> request \<Rightarrow> app \<times> str" where
  \<open>change_prompt st request =
     (if http_method request = py ''POST'' then
        (let new_prompt = form request (py ''new_prompt'')
         in case new_prompt of
              None \<Rightarrow> (st, change_prompt_form st)
            | Some v \<Rightarrow>
                if v \<noteq> [] then (st\<lparr>current_system_prompt := v\<rparr>, PROMPT_UPDATED_PAGE)
                else (st, change_prompt_form st))
      else (st, change_prompt_form st))\<close>

section \<open>The catch-all route: \<open>catch_all\<close>\<close>

text \<open>
  A Flask \<open>Response\<close>: the body, the status, which is 200 when none is given, and the
  mimetype.
\<close>

record response =
  body :: str
  status :: nat
  mimetype :: str

definition Response :: "str \<Rightarrow> str \<Rightarrow> response" where
  "Response b m = \<lparr>body = b, status = 200, mimetype = m\<rparr>"

text \<open>
  The page name made from the path (\<open>app-gemini.py\<close>, lines 159 to 164, the same in the
  three files).
\<close>

definition page_name :: "str \<Rightarrow> str" where
  \<open>page_name path =
     (if path = [] then py ''home''
      else replace (py ''_'') (py '' '') (replace (py ''/'') (py '' '') path))\<close>

text \<open>\<open>app-gemini.py\<close>, lines 169 to 180; \<open>app-mercury.py\<close>, lines 163 to 174, has the same text.\<close>

definition gemini_prompt :: "str \<Rightarrow> str" where
  \<open>gemini_prompt name =
     py ''Generate the HTML for a page about '' @
     py [CHR 0x27] @
     name @
     py [CHR 0x27] @
     py ''. The page should have a clean and modern design. \<newline>'' @
     py ''    Make the content interesting and relevant to the topic. If it's a product, include a price and a buy button. \<newline>'' @
     py ''    If it's a blog post, make it informative. \<newline>'' @
     py ''    \<newline>'' @
     py ''    IMPORTANT: Include the following navigation elements:\<newline>'' @
     py ''    - A navigation bar with links to: /about, /products, /blog, /contact\<newline>'' @
     py ''    - A "Change System Prompt" button that links to /change-prompt\<newline>'' @
     py ''    - At least 3 clickable buttons that lead to different pages (be creative with the links)\<newline>'' @
     py ''    - Make sure all buttons and links are properly styled with Tailwind CSS\<newline>'' @
     py ''    - Include hover effects on all interactive elements\<newline>'' @
     py ''    \<newline>'' @
     py ''    The page should feel like a real website with functional navigation.''\<close>

definition mercury_prompt :: "str \<Rightarrow> str" where
  \<open>mercury_prompt name =
     py ''Generate the HTML for a page about '' @
     py [CHR 0x27] @
     name @
     py [CHR 0x27] @
     py ''. The page should have a clean and modern design. \<newline>'' @
     py ''    Make the content interesting and relevant to the topic. If it's a product, include a price and a buy button. \<newline>'' @
     py ''    If it's a blog post, make it informative. \<newline>'' @
     py ''    \<newline>'' @
     py ''    IMPORTANT: Include the following navigation elements:\<newline>'' @
     py ''    - A navigation bar with links to: /about, /products, /blog, /contact\<newline>'' @
     py ''    - A "Change System Prompt" button that links to /change-prompt\<newline>'' @
     py ''    - At least 3 clickable buttons that lead to different pages (be creative with the links)\<newline>'' @
     py ''    - Make sure all buttons and links are properly styled with Tailwind CSS\<newline>'' @
     py ''    - Include hover effects on all interactive elements\<newline>'' @
     py ''    \<newline>'' @
     py ''    The page should feel like a real website with functional navigation.''\<close>

text \<open>
  \<open>app-groq.py\<close>, lines 188 to 224.  \<open>str.upper\<close>, the Unicode upper-casing of Python,
  is a parameter.
\<close>

definition groq_prompt :: "(str \<Rightarrow> str) \<Rightarrow> str \<Rightarrow> str" where
  \<open>groq_prompt upper name =
     [0x1F680] @
     py '' CREATE AN EXCEPTIONAL '' @
     py [CHR 0x27] @
     upper name @
     py [CHR 0x27] @
     py '' PAGE:\<newline>'' @
     py ''    \<newline>'' @
     py ''    '' @
     [0x1F4CB] @
     py '' CONTENT REQUIREMENTS:\<newline>'' @
     py ''    - Generate rich, engaging content relevant to '' @
     py [CHR 0x27] @
     name @
     py [CHR 0x27] @
     py ''\<newline>'' @
     py ''    - Include interactive elements: counters, progress bars, live data displays\<newline>'' @
     py ''    - Add testimonials, reviews, or user-generated content sections\<newline>'' @
     py ''    - Implement search/filter functionality where applicable\<newline>'' @
     py ''    - Include call-to-action sections with conversion-optimized design\<newline>'' @
     py ''    \<newline>'' @
     py ''    '' @
     [0x1F3AF] @
     py '' MANDATORY UI COMPONENTS:\<newline>'' @
     py ''    - Stunning hero section with animated gradient background\<newline>'' @
     py ''    - Responsive navigation bar with smooth mobile hamburger menu\<newline>'' @
     py ''    - "Change System Prompt" button (styled as premium feature)\<newline>'' @
     py ''    - Minimum 5 interactive buttons/cards leading to: /dashboard, /analytics, /settings, /profile, /explore\<newline>'' @
     py ''    - Floating action button (FAB) for quick actions\<newline>'' @
     py ''    - Breadcrumb navigation for better UX\<newline>'' @
     py ''    - Footer with social links and newsletter signup\<newline>'' @
     py ''    \<newline>'' @
     py ''    '' @
     [0x2728] @
     py '' ADVANCED FEATURES TO IMPLEMENT:\<newline>'' @
     py ''    - Dark/light mode toggle with system preference detection\<newline>'' @
     py ''    - Loading skeletons and smooth page transitions\<newline>'' @
     py ''    - Interactive charts or data visualizations (using CSS/SVG)\<newline>'' @
     py ''    - Modal dialogs and toast notifications\<newline>'' @
     py ''    - Infinite scroll or pagination components\<newline>'' @
     py ''    - Real-time search with autocomplete suggestions\<newline>'' @
     py ''    - Drag-and-drop interfaces where relevant\<newline>'' @
     py ''    - Progressive web app features (offline indicators)\<newline>'' @
     py ''    \<newline>'' @
     py ''    '' @
     [0x1F3A8] @
     py '' VISUAL EXCELLENCE:\<newline>'' @
     py ''    - Glassmorphism cards with backdrop blur effects\<newline>'' @
     py ''    - Animated icons and micro-interactions\<newline>'' @
     py ''    - Custom CSS animations for scroll-triggered reveals\<newline>'' @
     py ''    - Beautiful color schemes with proper contrast ratios\<newline>'' @
     py ''    - Typography hierarchy with perfect spacing\<newline>'' @
     py ''    - Subtle shadows and depth for modern layering\<newline>'' @
     py ''    \<newline>'' @
     py ''    Make this the most impressive, modern TUI experience possible!''\<close>

definition gemini_catch_all :: "upstream \<Rightarrow> app \<Rightarrow> str \<Rightarrow> app \<times> response" where
  \<open>gemini_catch_all generate_content st path =
     (let prompt = gemini_prompt (page_name path);
          st = st\<lparr>stdout := stdout st @
                 [py ''Generating page for path: /'' @
                  path,
                  py ''Generated prompt: '' @
                  prompt]\<rparr>;
          (st, html_content) = gemini_generate_html_with_llm generate_content st prompt
      in (st, Response html_content (py ''text/html'')))\<close>

definition groq_catch_all :: "(str \<Rightarrow> str) \<Rightarrow> upstream \<Rightarrow> app \<Rightarrow> str \<Rightarrow> app \<times> response" where
  \<open>groq_catch_all upper create st path =
     (let prompt = groq_prompt upper (page_name path);
          st = st\<lparr>stdout := stdout st @
                 [py ''Generating page for path: /'' @
                  path,
                  py ''Generated prompt: '' @
                  prompt]\<rparr>;
          (st, html_content) = groq_generate_html_with_llm create st prompt
      in (st, Response html_content (py ''text/html'')))\<close>

definition mercury_catch_all :: "http_upstream \<Rightarrow> app \<Rightarrow> str \<Rightarrow> app \<times> response" where
  \<open>mercury_catch_all post st path =
     (let prompt = mercury_prompt (page_name path);
          st = st\<lparr>stdout := stdout st @
                 [py ''Generating page for path: /'' @
                  path,
                  py ''Generated prompt: '' @
                  prompt]\<rparr>;
          (st, html_content) = mercury_generate_html_with_llm post st prompt
      in (st, Response html_content (py ''text/html'')))\<close>

section \<open>Serving requests\<close>

text \<open>
  The two routes: \<open>/change-prompt\<close> with its request, and every other path, given
  without its leading slash.  A text returned by a view becomes a response with
  status 200 and mimetype \<open>text/html\<close>.
\<close>

datatype http_request = ChangePrompt request | CatchAll str

definition gemini_serve :: "upstream \<Rightarrow> app \<Rightarrow> http_request \<Rightarrow> app \<times> response" where
  \<open>gemini_serve generate_content st r =
     (case r of
        ChangePrompt request \<Rightarrow>
          (let (st, page) = change_prompt st request in (st, Response page (py ''text/html'')))
      | CatchAll path \<Rightarrow> gemini_catch_all generate_content st path)\<close>

definition groq_serve :: "(str \<Rightarrow> str) \<Rightarrow> upstream \<Rightarrow> app \<Rightarrow> http_request \<Rightarrow> app \<times> response" where
  \<open>groq_serve upper create st r =
     (case r of
        ChangePrompt request \<Rightarrow>
          (let (st, page) = change_prompt st request in (st, Response page (py ''text/html'')))
      | CatchAll path \<Rightarrow> groq_catch_all upper create st path)\<close>

definition mercury_serve :: "http_upstream \<Rightarrow> app \<Rightarrow> http_request \<Rightarrow> app \<times> response" where
  \<open>mercury_serve post st r =
     (case r of
        ChangePrompt request \<Rightarrow>
          (let (st, page) = change_prompt st request in (st, Response page (py ''text/html'')))
      | CatchAll path \<Rightarrow> mercury_catch_all post st path)\<close>

text \<open>The state after a sequence of requests, served one after the other.\<close>

fun gemini_run :: "upstream \<Rightarrow> app \<Rightarrow> http_request list \<Rightarrow> app" where
  "gemini_run generate_content st [] = st"
| "gemini_run generate_content st (r # rs) =
     gemini_run generate_content (fst (gemini_serve generate_content st r)) rs"

fun groq_run :: "(str \<Rightarrow> str) \<Rightarrow> upstream \<Rightarrow> app \<Rightarrow> http_request list \<Rightarrow> app" where
  "groq_run upper create st [] = st"
| "groq_run upper create st (r # rs) = groq_run upper create (fst (groq_serve upper create st r)) rs"

fun mercury_run :: "http_upstream \<Rightarrow> app \<Rightarrow> http_request list \<Rightarrow> app" where
  "mercury_run post st [] = st"
| "mercury_run post st (r # rs) = mercury_run post (fst (mercury_serve post st r)) rs"

section \<open>Lemmas on strings\<close>

lemma py_in_sublist: "py_in sub s \<longleftrightarrow> sublist sub s"
  by (induction s) (simp_all add: sublist_Cons_right)

lemma prefix_rstrip: "prefix (rstrip s) s"
proof -
  have "suffix (dropWhile isspace (rev s)) (rev s)" by (rule suffix_dropWhile)
  then show ?thesis by (simp add: rstrip_def suffix_to_prefix)
qed

lemma suffix_lstrip: "suffix (lstrip s) s"
  by (simp add: lstrip_def suffix_dropWhile)

lemma sublist_strip: "sublist (strip s) s"
proof -
  have "sublist (rstrip (lstrip s)) (lstrip s)" using prefix_rstrip by blast
  moreover have "sublist (lstrip s) s" using suffix_lstrip by blast
  ultimately show ?thesis unfolding strip_def by (rule sublist_order.order_trans)
qed

lemma py_in_strip: "py_in sub (strip s) \<Longrightarrow> py_in sub s"
  unfolding py_in_sublist using sublist_strip sublist_order.order_trans by blast

lemma rstrip_append:
  assumes "m \<noteq> []" "\<not> isspace (last m)"
  shows "rstrip (r @ m) = r @ m"
proof -
  from assms(1) obtain b l where m: "m = b @ [l]" by (cases m rule: rev_cases) auto
  with assms(2) have "\<not> isspace l" by simp
  then show ?thesis by (simp add: rstrip_def m)
qed

lemma rstrip_prepend:
  assumes "m \<noteq> []" "\<not> isspace (last m)"
  shows "rstrip (m @ r) = m @ rstrip r"
proof (cases "\<forall>x\<in>set (rev r). isspace x")
  case True
  then have "dropWhile isspace (rev r @ rev m) = dropWhile isspace (rev m)"
    by (simp add: dropWhile_append)
  moreover have "dropWhile isspace (rev r) = []" using True by simp
  moreover have "rstrip ([] @ m) = [] @ m" using assms by (rule rstrip_append)
  ultimately show ?thesis by (simp add: rstrip_def)
next
  case False
  then obtain x where "x \<in> set (rev r)" "\<not> isspace x" by blast
  then have "dropWhile isspace (rev r @ rev m) = dropWhile isspace (rev r) @ rev m"
    by (rule dropWhile_append1)
  then show ?thesis by (simp add: rstrip_def)
qed

lemma lstrip_nonspace: "s \<noteq> [] \<Longrightarrow> \<not> isspace (hd s) \<Longrightarrow> lstrip s = s"
  by (cases s) (simp_all add: lstrip_def)

lemma strip_marker_prepend:
  assumes "m \<noteq> []" "\<not> isspace (hd m)" "\<not> isspace (last m)"
  shows "strip (m @ r) = m @ rstrip r"
proof -
  have "lstrip (m @ r) = m @ r" using assms(1,2) by (intro lstrip_nonspace) simp_all
  then show ?thesis using assms by (simp add: strip_def rstrip_prepend)
qed

lemma replace_absent:
  "old \<noteq> [] \<Longrightarrow> \<not> sublist old s \<Longrightarrow> replace old new s = s"
  by (induction s) (simp_all add: sublist_Cons_right)

lemma find_first_Some:
  "sep \<noteq> [] \<Longrightarrow> find_first sep s = Some (before, after) \<Longrightarrow>
     s = before @ sep @ after \<and> \<not> sublist sep (before @ butlast sep)"
proof (induction s arbitrary: before)
  case Nil
  then show ?case by simp
next
  case (Cons c cs)
  show ?case
  proof (cases "prefix sep (c # cs)")
    case True
    with Cons.prems have "before = []" "after = drop (length sep) (c # cs)" by simp_all
    moreover have "c # cs = sep @ drop (length sep) (c # cs)"
      using True by (metis append_eq_conv_conj prefix_def)
    moreover have "\<not> sublist sep (butlast sep)"
      using Cons.prems(1) by (metis sublist_length_le length_butlast diff_less length_greater_0_conv less_one not_le)
    ultimately show ?thesis by simp
  next
    case False
    with Cons.prems obtain b where b: "find_first sep cs = Some (b, after)" "before = c # b"
      by (auto split: prod.splits)
    from Cons.IH[OF Cons.prems(1) b(1)]
    have ih: "cs = b @ sep @ after" "\<not> sublist sep (b @ butlast sep)" by simp_all
    have "\<not> prefix sep (c # b @ butlast sep)"
    proof
      assume "prefix sep (c # b @ butlast sep)"
      moreover have "prefix (c # b @ butlast sep) (c # cs)"
        using ih(1) Cons.prems(1) by (metis append_butlast_last_id prefix_def append.assoc append_Cons Cons_prefix_Cons same_prefix_prefix prefixI)
      ultimately show False using False prefix_order.order_trans by blast
    qed
    then show ?thesis using ih b(2) by (simp add: sublist_Cons_right)
  qed
qed

lemma find_first_None:
  "sep \<noteq> [] \<Longrightarrow> find_first sep s = None \<longleftrightarrow> \<not> sublist sep s"
  by (induction s) (auto simp add: sublist_Cons_right)


lemma FENCE_eq: "FENCE = [96, 96, 96]"
  by (simp add: FENCE_def py_def)

lemma replace_FENCE_run:
  "t = [] \<or> hd t \<noteq> 96 \<Longrightarrow>
     replace FENCE [] (replicate k 96 @ t) = replicate (k mod 3) 96 @ replace FENCE [] t"
proof (induction k rule: less_induct)
  case (less k)
  have nt: "\<not> prefix [96, 96] (t)" "\<not> prefix [96] t" "\<not> prefix [96, 96, 96] t"
    using less.prems by (cases t; simp)+
  consider "k = 0" | "k = 1" | "k = 2" | "3 \<le> k" by linarith
  then show ?case
  proof cases
    case 1
    then show ?thesis by simp
  next
    case 2
    then show ?thesis using nt by (simp add: FENCE_eq)
  next
    case 3
    then have "replicate k 96 = [96, 96::nat]" by (simp add: numeral_2_eq_2)
    then show ?thesis using nt 3 by (simp add: FENCE_eq)
  next
    case 4
    then obtain j where j: "k = Suc (Suc (Suc j))"
      by (metis Suc_le_D Suc_le_mono numeral_3_eq_3)
    then have "replace FENCE [] (replicate k 96 @ t) = replace FENCE [] (replicate j 96 @ t)"
      by (simp add: FENCE_eq)
    also have "\<dots> = replicate (j mod 3) 96 @ replace FENCE [] t"
      using less.IH[of j] less.prems j by simp
    also have "j mod 3 = k mod 3" using j by presburger
    finally show ?thesis .
  qed
qed

lemma replace_FENCE_no_prefix: "\<not> prefix FENCE (replace FENCE [] s)"
proof -
  define k where "k = length (takeWhile (\<lambda>c. c = 96) s)"
  define t where "t = dropWhile (\<lambda>c. c = 96) s"
  have "takeWhile (\<lambda>c. c = 96) s = replicate k 96"
    unfolding k_def by (metis (mono_tags, lifting) replicate_length_same set_takeWhileD)
  then have s: "s = replicate k 96 @ t"
    unfolding t_def by (metis takeWhile_dropWhile_id)
  have t: "t = [] \<or> hd t \<noteq> 96"
    unfolding t_def using hd_dropWhile[of "\<lambda>c. c = 96" s] by blast
  have r: "replace FENCE [] s = replicate (k mod 3) 96 @ replace FENCE [] t"
    unfolding s using t by (rule replace_FENCE_run)
  have u: "replace FENCE [] t = [] \<or> hd (replace FENCE [] t) \<noteq> 96"
    using t by (cases t) (auto simp: FENCE_eq)
  define u where "u = replace FENCE [] t"
  consider "k mod 3 = 0" | "k mod 3 = 1" | "k mod 3 = 2" by linarith
  then show ?thesis
  proof cases
    case 1
    then show ?thesis using u unfolding r u_def[symmetric] by (cases u) (auto simp: FENCE_eq)
  next
    case 2
    then show ?thesis using u unfolding r u_def[symmetric] by (cases u) (auto simp: FENCE_eq)
  next
    case 3
    then have "replicate (k mod 3) 96 = [96, 96::nat]" by (simp add: numeral_2_eq_2)
    then show ?thesis using u unfolding r u_def[symmetric] by (cases u) (auto simp: FENCE_eq)
  qed
qed

lemma replace_FENCE_no_fence: "\<not> sublist FENCE (replace FENCE [] s)"
proof (induction "length s" arbitrary: s rule: less_induct)
  case less
  show ?case
  proof (cases s)
    case Nil
    then show ?thesis by (simp add: FENCE_eq)
  next
    case (Cons c cs)
    show ?thesis
    proof (cases "prefix FENCE (c # cs)")
      case True
      then have "replace FENCE [] s = replace FENCE [] (drop (length FENCE) (c # cs))"
        using Cons by (simp add: FENCE_eq)
      moreover have "length (drop (length FENCE) (c # cs)) < length s"
        using Cons by (simp add: FENCE_eq)
      ultimately show ?thesis using less by simp
    next
      case False
      moreover have "FENCE \<noteq> []" by (simp add: FENCE_eq)
      ultimately have r: "replace FENCE [] s = c # replace FENCE [] cs"
        using Cons by simp
      have "\<not> prefix FENCE (c # replace FENCE [] cs)"
        using replace_FENCE_no_prefix[of s] r by simp
      moreover have "\<not> sublist FENCE (replace FENCE [] cs)"
        using less[of cs] Cons by simp
      ultimately show ?thesis unfolding r by (simp add: sublist_Cons_right)
    qed
  qed
qed

lemma remove_fences_no_fence: "\<not> sublist FENCE (remove_fences s)"
  unfolding remove_fences_def by (rule replace_FENCE_no_fence)

lemma sublist_FENCE_FENCE_HTML: "sublist FENCE FENCE_HTML"
proof -
  have "prefix FENCE FENCE_HTML" by (simp add: FENCE_def FENCE_HTML_def py_def)
  then show ?thesis by (rule prefix_imp_sublist)
qed

lemma remove_fences_absent: "\<not> sublist FENCE s \<Longrightarrow> remove_fences s = s"
proof -
  assume a: "\<not> sublist FENCE s"
  have "\<not> sublist FENCE_HTML s"
    using a sublist_FENCE_FENCE_HTML sublist_order.order_trans by blast
  moreover have "FENCE_HTML \<noteq> []" "FENCE \<noteq> []" by (simp_all add: FENCE_def FENCE_HTML_def py_def)
  ultimately show ?thesis using a by (simp add: remove_fences_def replace_absent)
qed

lemma cut_before_present:
  assumes "marker \<noteq> []" "sublist marker t"
  shows "\<exists>pre post. cut_before marker t = Inr (marker @ post) \<and> t = pre @ marker @ post \<and>
           \<not> sublist marker (pre @ butlast marker)"
proof -
  from assms have "find_first marker t \<noteq> None" by (simp add: find_first_None)
  then obtain pre post where f: "find_first marker t = Some (pre, post)" by auto
  from find_first_Some[OF assms(1) f]
  have "t = pre @ marker @ post" "\<not> sublist marker (pre @ butlast marker)" by simp_all
  moreover have "cut_before marker t = Inr (marker @ post)"
    using assms(1) f by (simp add: cut_before_def split_1_def index_1_def)
  ultimately show ?thesis by blast
qed


lemma DOCTYPE_shape: "DOCTYPE \<noteq> []" "\<not> isspace (hd DOCTYPE)" "\<not> isspace (last DOCTYPE)"
  by (simp_all add: DOCTYPE_def py_def isspace_def)

lemma HTML_TAG_shape: "HTML_TAG \<noteq> []" "\<not> isspace (hd HTML_TAG)" "\<not> isspace (last HTML_TAG)"
  by (simp_all add: HTML_TAG_def py_def isspace_def)

lemma groq_sanitize_eq: "groq_sanitize = gemini_sanitize"
  by (rule ext) (simp add: groq_sanitize_def gemini_sanitize_def)

lemma rstrip_idem: "rstrip (rstrip s) = rstrip s"
  by (simp add: rstrip_def dropWhile_idem)

lemma strip_idem: "strip (strip s) = strip s"
proof -
  define l where "l = lstrip s"
  define u where "u = rstrip l"
  have l: "l = [] \<or> \<not> isspace (hd l)"
    unfolding l_def lstrip_def using hd_dropWhile[of isspace s] by blast
  have "lstrip u = u"
  proof (cases u)
    case Nil
    then show ?thesis by (simp add: lstrip_def)
  next
    case (Cons a as)
    have "prefix u l" unfolding u_def by (rule prefix_rstrip)
    with Cons obtain ls where "l = a # ls" by (auto simp: prefix_def)
    with l have "\<not> isspace a" by simp
    then show ?thesis using Cons by (simp add: lstrip_def)
  qed
  then have "strip u = rstrip u" by (simp add: strip_def)
  also have "\<dots> = u" unfolding u_def by (rule rstrip_idem)
  finally show ?thesis by (simp add: u_def l_def strip_def)
qed

lemma find_first_prefix: "sep \<noteq> [] \<Longrightarrow> find_first sep (sep @ r) = Some ([], r)"
  by (cases sep) simp_all

lemma cut_before_prefix: "marker \<noteq> [] \<Longrightarrow> cut_before marker (marker @ r) = Inr (marker @ r)"
  by (simp add: cut_before_def split_1_def index_1_def find_first_prefix)

text \<open>The three cases of the clean-up, on the text after the fences are removed.\<close>

lemma gemini_sanitize_cases:
  fixes raw defines "t \<equiv> remove_fences (strip raw)"
  shows "sublist DOCTYPE t \<Longrightarrow>
           \<exists>pre post. gemini_sanitize raw = Inr (DOCTYPE @ post) \<and> t = pre @ DOCTYPE @ post \<and>
             \<not> sublist DOCTYPE (pre @ butlast DOCTYPE)"
    and "\<not> sublist DOCTYPE t \<Longrightarrow> sublist HTML_TAG t \<Longrightarrow>
           \<exists>pre post. gemini_sanitize raw = Inr (HTML_TAG @ post) \<and> t = pre @ HTML_TAG @ post \<and>
             \<not> sublist HTML_TAG (pre @ butlast HTML_TAG)"
    and "\<not> sublist DOCTYPE t \<Longrightarrow> \<not> sublist HTML_TAG t \<Longrightarrow> gemini_sanitize raw = Inr t"
proof -
  have g: "gemini_sanitize raw =
      (if sublist DOCTYPE t then cut_before DOCTYPE t
       else if sublist HTML_TAG t then cut_before HTML_TAG t else Inr t)"
    by (simp add: gemini_sanitize_def t_def py_in_sublist Let_def)
  show "sublist DOCTYPE t \<Longrightarrow>
           \<exists>pre post. gemini_sanitize raw = Inr (DOCTYPE @ post) \<and> t = pre @ DOCTYPE @ post \<and>
             \<not> sublist DOCTYPE (pre @ butlast DOCTYPE)"
    using cut_before_present[OF DOCTYPE_shape(1), of t] g by simp
  show "\<not> sublist DOCTYPE t \<Longrightarrow> sublist HTML_TAG t \<Longrightarrow>
           \<exists>pre post. gemini_sanitize raw = Inr (HTML_TAG @ post) \<and> t = pre @ HTML_TAG @ post \<and>
             \<not> sublist HTML_TAG (pre @ butlast HTML_TAG)"
    using cut_before_present[OF HTML_TAG_shape(1), of t] g by simp
  show "\<not> sublist DOCTYPE t \<Longrightarrow> \<not> sublist HTML_TAG t \<Longrightarrow> gemini_sanitize raw = Inr t"
    using g by simp
qed

text \<open>The clean-up always returns a text, and that text is the end of the de-fenced text.\<close>

lemma gemini_sanitize_suffix:
  "\<exists>y. gemini_sanitize raw = Inr y \<and> suffix y (remove_fences (strip raw))"
proof -
  define t where "t = remove_fences (strip raw)"
  consider (d) "sublist DOCTYPE t" | (h) "\<not> sublist DOCTYPE t" "sublist HTML_TAG t"
    | (n) "\<not> sublist DOCTYPE t" "\<not> sublist HTML_TAG t" by blast
  then show ?thesis
  proof cases
    case d
    from gemini_sanitize_cases(1)[OF d[unfolded t_def]] show ?thesis
      by (metis suffix_def)
  next
    case h
    from gemini_sanitize_cases(2)[OF h[unfolded t_def]] show ?thesis
      by (metis suffix_def)
  next
    case n
    from gemini_sanitize_cases(3)[OF n[unfolded t_def]] show ?thesis by simp
  qed
qed

lemma mercury_sanitize_eq: "mercury_sanitize raw = Inr (remove_fences (strip raw))"
  by (simp add: mercury_sanitize_def)

lemma gemini_sanitize_no_fence: "gemini_sanitize raw = Inr y \<Longrightarrow> \<not> sublist FENCE y"
proof -
  assume a: "gemini_sanitize raw = Inr y"
  with gemini_sanitize_suffix[of raw] have "suffix y (remove_fences (strip raw))" by auto
  then have "sublist y (remove_fences (strip raw))" by (rule suffix_imp_sublist)
  then show ?thesis using remove_fences_no_fence sublist_order.order_trans by blast
qed


lemma first_occurrence:
  assumes "t = pre @ m @ post" "\<not> sublist m (pre @ butlast m)" "t = pre' @ m @ post'"
  shows "length pre \<le> length pre'"
proof (rule ccontr)
  assume "\<not> length pre \<le> length pre'"
  then have lt: "length pre' < length pre" by simp
  have m: "m \<noteq> []" using assms(2) by auto
  have "prefix (pre' @ m) t" using assms(3) by simp
  moreover have "prefix (pre @ butlast m) t"
  proof -
    have "t = (pre @ butlast m) @ ([last m] @ post)" using assms(1) m by simp
    then show ?thesis by (metis prefixI)
  qed
  moreover have "length (pre' @ m) \<le> length (pre @ butlast m)" using lt m
    by (cases m) simp_all
  ultimately have "prefix (pre' @ m) (pre @ butlast m)" by (rule prefix_length_prefix)
  then have "sublist m (pre @ butlast m)"
    by (metis prefix_imp_sublist sublist_append_leftI sublist_order.order_trans)
  with assms(2) show False by simp
qed

lemma gemini_sanitize_twice:
  assumes "gemini_sanitize raw = Inr y"
  shows "gemini_sanitize y = Inr (strip y)"
proof -
  define t where "t = remove_fences (strip raw)"
  have nf: "\<not> sublist FENCE (strip y)"
    using gemini_sanitize_no_fence[OF assms] sublist_strip sublist_order.order_trans by blast
  then have t2: "remove_fences (strip y) = strip y" by (rule remove_fences_absent)
  consider (d) "sublist DOCTYPE t" | (h) "\<not> sublist DOCTYPE t" "sublist HTML_TAG t"
    | (n) "\<not> sublist DOCTYPE t" "\<not> sublist HTML_TAG t" by blast
  then show ?thesis
  proof cases
    case d
    from gemini_sanitize_cases(1)[OF d[unfolded t_def]] assms
    obtain post where y: "y = DOCTYPE @ post" by auto
    have s: "strip y = DOCTYPE @ rstrip post"
      unfolding y using DOCTYPE_shape by (rule strip_marker_prepend)
    then have "sublist DOCTYPE (strip y)" by simp
    then have "gemini_sanitize y = cut_before DOCTYPE (strip y)"
      by (simp add: gemini_sanitize_def t2 py_in_sublist)
    then show ?thesis using s cut_before_prefix[OF DOCTYPE_shape(1)] by simp
  next
    case h
    from gemini_sanitize_cases(2)[OF h[unfolded t_def]] assms
    obtain pre post where y: "y = HTML_TAG @ post" and t: "t = pre @ HTML_TAG @ post"
      by (auto simp: t_def)
    have s: "strip y = HTML_TAG @ rstrip post"
      unfolding y using HTML_TAG_shape by (rule strip_marker_prepend)
    have "sublist y t" unfolding y t by simp
    then have "sublist (strip y) t" using sublist_strip sublist_order.order_trans by blast
    then have "\<not> sublist DOCTYPE (strip y)" using h(1) sublist_order.order_trans by blast
    moreover have "sublist HTML_TAG (strip y)" using s by simp
    ultimately have "gemini_sanitize y = cut_before HTML_TAG (strip y)"
      by (simp add: gemini_sanitize_def t2 py_in_sublist)
    then show ?thesis using s cut_before_prefix[OF HTML_TAG_shape(1)] by simp
  next
    case n
    from gemini_sanitize_cases(3)[OF n[unfolded t_def]] assms have y: "y = t" by (simp add: t_def)
    have "sublist (strip y) t" unfolding y by (rule sublist_strip)
    then have "\<not> sublist DOCTYPE (strip y)" "\<not> sublist HTML_TAG (strip y)"
      using n sublist_order.order_trans by blast+
    then show ?thesis by (simp add: gemini_sanitize_def t2 py_in_sublist)
  qed
qed

lemma rstrip_strip: "rstrip (strip s) = strip s"
  by (simp add: strip_def rstrip_idem)

lemma gemini_sanitize_stripped:
  assumes "\<not> sublist FENCE raw" "gemini_sanitize raw = Inr y"
  shows "strip y = y"
proof -
  define t where "t = strip raw"
  have "\<not> sublist FENCE (strip raw)"
    using assms(1) sublist_strip sublist_order.order_trans by blast
  then have rf: "remove_fences (strip raw) = t" unfolding t_def by (rule remove_fences_absent)
  have cut: "strip (m @ post) = m @ post"
    if "t = pre @ m @ post" "m \<noteq> []" "\<not> isspace (hd m)" "\<not> isspace (last m)" for m pre post
  proof -
    have "rstrip t = t" unfolding t_def by (rule rstrip_strip)
    moreover have "rstrip ((pre @ m) @ post) = (pre @ m) @ rstrip post"
      using that by (intro rstrip_prepend) simp_all
    ultimately have "rstrip post = post" using that(1) by simp
    then show ?thesis using that strip_marker_prepend[of m post] by simp
  qed
  consider (d) "sublist DOCTYPE t" | (h) "\<not> sublist DOCTYPE t" "sublist HTML_TAG t"
    | (n) "\<not> sublist DOCTYPE t" "\<not> sublist HTML_TAG t" by blast
  then show ?thesis
  proof cases
    case d
    from gemini_sanitize_cases(1)[of raw] d assms(2) rf
    obtain pre post where "y = DOCTYPE @ post" "t = pre @ DOCTYPE @ post" by auto
    then show ?thesis using cut DOCTYPE_shape by blast
  next
    case h
    from gemini_sanitize_cases(2)[of raw] h assms(2) rf
    obtain pre post where "y = HTML_TAG @ post" "t = pre @ HTML_TAG @ post" by auto
    then show ?thesis using cut HTML_TAG_shape by blast
  next
    case n
    from gemini_sanitize_cases(3)[of raw] n assms(2) rf have "y = t" by simp
    then show ?thesis by (simp add: t_def strip_idem)
  qed
qed


lemma groq_sanitize_cases:
  "groq_sanitize raw = gemini_sanitize raw"
  by (simp add: groq_sanitize_eq)

lemmas eval_defs =
  py_def gemini_sanitize_def groq_sanitize_def mercury_sanitize_def remove_fences_def
  cut_before_def split_1_def index_1_def strip_def lstrip_def rstrip_def isspace_def
  FENCE_def FENCE_HTML_def DOCTYPE_def HTML_TAG_def

section \<open>The response clean-up: claims\<close>

text \<open>
  C10.  Whatever text the model returns, each of the three clean-ups returns a text (it
  raises nothing), and that text contains no triple backtick: removing every
  \<open>```html\<close> and then every \<open>```\<close> leaves none behind and creates none.
\<close>

theorem sanitize_output_has_no_fence:
  "(\<exists>y. gemini_sanitize raw = Inr y \<and> \<not> py_in FENCE y) \<and>
   (\<exists>y. groq_sanitize raw = Inr y \<and> \<not> py_in FENCE y) \<and>
   (\<exists>y. mercury_sanitize raw = Inr y \<and> \<not> py_in FENCE y)"
proof -
  obtain y where y: "gemini_sanitize raw = Inr y"
    using gemini_sanitize_suffix[of raw] by blast
  then have "\<not> py_in FENCE y"
    unfolding py_in_sublist by (rule gemini_sanitize_no_fence)
  moreover have "\<not> py_in FENCE (remove_fences (strip raw))"
    unfolding py_in_sublist by (rule remove_fences_no_fence)
  ultimately show ?thesis
    using y by (simp add: groq_sanitize_eq mercury_sanitize_eq)
qed

theorem sanitize_output_has_no_fence_witness:
  "gemini_sanitize (py ''`` ```html`<p>``` ` ``'') = Inr (py ''`` `<p> ` ``'') \<and>
   \<not> py_in FENCE (py ''`` `<p> ` ``'')"
proof -
  have "gemini_sanitize (py ''`` ```html`<p>``` ` ``'') = Inr (py ''`` `<p> ` ``'')"
    by (simp add: eval_defs)
  then show ?thesis
    using sanitize_output_has_no_fence[of "py ''`` ```html`<p>``` ` ``''"] by simp
qed

text \<open>
  C1.  The claim is that each of the three clean-ups discards what precedes the first
  \<open><!DOCTYPE html>\<close>, or else the first \<open><html\<close>.  The clean-up of
  \<open>app-mercury.py\<close> has no such step: on the claim's own example it returns the input.
\<close>

theorem mercury_sanitize_keeps_prefix:
  "mercury_sanitize (py ''blah blah <!DOCTYPE html><html></html>'') =
     Inr (py ''blah blah <!DOCTYPE html><html></html>'') \<and>
   mercury_sanitize (py ''blah blah <!DOCTYPE html><html></html>'') \<noteq>
     Inr (py ''<!DOCTYPE html><html></html>'')"
  by (simp add: eval_defs)

text \<open>
  C1, as amended.  Let \<open>t\<close> be the returned text after \<open>strip\<close> and the removal of
  the fences.  In \<open>app-gemini.py\<close> and \<open>app-groq.py\<close>: when \<open><!DOCTYPE html>\<close> occurs in
  \<open>t\<close>, the result is \<open>t\<close> from the first occurrence of that marker on; otherwise,
  when \<open><html\<close> occurs in \<open>t\<close>, the result is \<open>t\<close> from the first occurrence of that
  tag on.  ``First'' is: no occurrence starts earlier.  On
  \<open>"blah blah <!DOCTYPE html><html></html>"\<close> both return
  \<open>"<!DOCTYPE html><html></html>"\<close>.  In \<open>app-mercury.py\<close> the result is \<open>t\<close> itself.
\<close>

theorem sanitize_cuts_before_document:
  "(py_in DOCTYPE (remove_fences (strip raw)) \<longrightarrow>
      (\<exists>pre post.
         remove_fences (strip raw) = pre @ DOCTYPE @ post \<and>
         (\<forall>pre' post'. remove_fences (strip raw) = pre' @ DOCTYPE @ post' \<longrightarrow>
            length pre \<le> length pre') \<and>
         gemini_sanitize raw = Inr (DOCTYPE @ post) \<and>
         groq_sanitize raw = Inr (DOCTYPE @ post))) \<and>
   (\<not> py_in DOCTYPE (remove_fences (strip raw)) \<and> py_in HTML_TAG (remove_fences (strip raw)) \<longrightarrow>
      (\<exists>pre post.
         remove_fences (strip raw) = pre @ HTML_TAG @ post \<and>
         (\<forall>pre' post'. remove_fences (strip raw) = pre' @ HTML_TAG @ post' \<longrightarrow>
            length pre \<le> length pre') \<and>
         gemini_sanitize raw = Inr (HTML_TAG @ post) \<and>
         groq_sanitize raw = Inr (HTML_TAG @ post))) \<and>
   mercury_sanitize raw = Inr (remove_fences (strip raw)) \<and>
   gemini_sanitize (py ''blah blah <!DOCTYPE html><html></html>'') =
     Inr (py ''<!DOCTYPE html><html></html>'') \<and>
   groq_sanitize (py ''blah blah <!DOCTYPE html><html></html>'') =
     Inr (py ''<!DOCTYPE html><html></html>'')"
proof (intro conjI impI)
  assume "py_in DOCTYPE (remove_fences (strip raw))"
  then have "sublist DOCTYPE (remove_fences (strip raw))" by (simp add: py_in_sublist)
  from gemini_sanitize_cases(1)[OF this] obtain pre post where
    g: "gemini_sanitize raw = Inr (DOCTYPE @ post)" and
    t: "remove_fences (strip raw) = pre @ DOCTYPE @ post" and
    f: "\<not> sublist DOCTYPE (pre @ butlast DOCTYPE)" by blast
  have "\<forall>pre' post'. remove_fences (strip raw) = pre' @ DOCTYPE @ post' \<longrightarrow>
          length pre \<le> length pre'"
    using first_occurrence[OF t f] by blast
  with g t show "\<exists>pre post.
         remove_fences (strip raw) = pre @ DOCTYPE @ post \<and>
         (\<forall>pre' post'. remove_fences (strip raw) = pre' @ DOCTYPE @ post' \<longrightarrow>
            length pre \<le> length pre') \<and>
         gemini_sanitize raw = Inr (DOCTYPE @ post) \<and>
         groq_sanitize raw = Inr (DOCTYPE @ post)"
    unfolding groq_sanitize_eq by blast
next
  assume "\<not> py_in DOCTYPE (remove_fences (strip raw)) \<and> py_in HTML_TAG (remove_fences (strip raw))"
  then have "\<not> sublist DOCTYPE (remove_fences (strip raw))" "sublist HTML_TAG (remove_fences (strip raw))"
    by (simp_all add: py_in_sublist)
  from gemini_sanitize_cases(2)[OF this] obtain pre post where
    g: "gemini_sanitize raw = Inr (HTML_TAG @ post)" and
    t: "remove_fences (strip raw) = pre @ HTML_TAG @ post" and
    f: "\<not> sublist HTML_TAG (pre @ butlast HTML_TAG)" by blast
  have "\<forall>pre' post'. remove_fences (strip raw) = pre' @ HTML_TAG @ post' \<longrightarrow>
          length pre \<le> length pre'"
    using first_occurrence[OF t f] by blast
  with g t show "\<exists>pre post.
         remove_fences (strip raw) = pre @ HTML_TAG @ post \<and>
         (\<forall>pre' post'. remove_fences (strip raw) = pre' @ HTML_TAG @ post' \<longrightarrow>
            length pre \<le> length pre') \<and>
         gemini_sanitize raw = Inr (HTML_TAG @ post) \<and>
         groq_sanitize raw = Inr (HTML_TAG @ post)"
    unfolding groq_sanitize_eq by blast
next
  show "mercury_sanitize raw = Inr (remove_fences (strip raw))" by (rule mercury_sanitize_eq)
next
  show "gemini_sanitize (py ''blah blah <!DOCTYPE html><html></html>'') =
     Inr (py ''<!DOCTYPE html><html></html>'')" by (simp add: eval_defs)
next
  show "groq_sanitize (py ''blah blah <!DOCTYPE html><html></html>'') =
     Inr (py ''<!DOCTYPE html><html></html>'')" by (simp add: eval_defs)
qed

theorem sanitize_cuts_before_document_witness:
  "py_in DOCTYPE (remove_fences (strip (py ''Sure! ```html <!DOCTYPE html><p>``` ''))) \<and>
   (\<exists>pre post.
      remove_fences (strip (py ''Sure! ```html <!DOCTYPE html><p>``` '')) = pre @ DOCTYPE @ post \<and>
      gemini_sanitize (py ''Sure! ```html <!DOCTYPE html><p>``` '') = Inr (DOCTYPE @ post)) \<and>
   \<not> py_in DOCTYPE (remove_fences (strip (py ''Page: <html><body>''))) \<and>
   py_in HTML_TAG (remove_fences (strip (py ''Page: <html><body>''))) \<and>
   (\<exists>pre post.
      remove_fences (strip (py ''Page: <html><body>'')) = pre @ HTML_TAG @ post \<and>
      groq_sanitize (py ''Page: <html><body>'') = Inr (HTML_TAG @ post))"
proof -
  have a: "py_in DOCTYPE (remove_fences (strip (py ''Sure! ```html <!DOCTYPE html><p>``` '')))"
    by (simp add: eval_defs)
  have b: "\<not> py_in DOCTYPE (remove_fences (strip (py ''Page: <html><body>''))) \<and>
           py_in HTML_TAG (remove_fences (strip (py ''Page: <html><body>'')))"
    by (simp add: eval_defs)
  have 1: "\<exists>pre post.
      remove_fences (strip (py ''Sure! ```html <!DOCTYPE html><p>``` '')) = pre @ DOCTYPE @ post \<and>
      gemini_sanitize (py ''Sure! ```html <!DOCTYPE html><p>``` '') = Inr (DOCTYPE @ post)"
    using a sanitize_cuts_before_document[of "py ''Sure! ```html <!DOCTYPE html><p>``` ''"]
    by blast
  have 2: "\<exists>pre post.
      remove_fences (strip (py ''Page: <html><body>'')) = pre @ HTML_TAG @ post \<and>
      groq_sanitize (py ''Page: <html><body>'') = Inr (HTML_TAG @ post)"
    using b sanitize_cuts_before_document[of "py ''Page: <html><body>''"]
    by blast
  from a b 1 2 show ?thesis by blast
qed

text \<open>
  C3.  The claim is that applying the clean-up twice gives what applying it once gives.
  The clean-up strips whitespace before it removes the fences, so whitespace next to a
  fence survives the first application and is stripped by the second.
\<close>

theorem sanitize_twice_counterexample:
  "gemini_sanitize (py ''``` a'') = Inr (py '' a'') \<and>
   gemini_sanitize (py '' a'') = Inr (py ''a'') \<and>
   py ''a'' \<noteq> py '' a''"
  by (simp add: eval_defs)

text \<open>
  C3, as amended.  For each of the three clean-ups and every input: the clean-up
  returns a text \<open>y\<close>; applied to \<open>y\<close> it returns \<open>y\<close> with leading and trailing
  whitespace stripped; and when the input contains no triple backtick, it returns \<open>y\<close>
  itself, so that twice is once.
\<close>

theorem sanitize_twice:
  "(\<exists>y. gemini_sanitize raw = Inr y \<and> gemini_sanitize y = Inr (strip y) \<and>
        (\<not> py_in FENCE raw \<longrightarrow> gemini_sanitize y = Inr y)) \<and>
   (\<exists>y. groq_sanitize raw = Inr y \<and> groq_sanitize y = Inr (strip y) \<and>
        (\<not> py_in FENCE raw \<longrightarrow> groq_sanitize y = Inr y)) \<and>
   (\<exists>y. mercury_sanitize raw = Inr y \<and> mercury_sanitize y = Inr (strip y) \<and>
        (\<not> py_in FENCE raw \<longrightarrow> mercury_sanitize y = Inr y))"
proof -
  obtain y where y: "gemini_sanitize raw = Inr y"
    using gemini_sanitize_suffix[of raw] by blast
  have g2: "gemini_sanitize y = Inr (strip y)" using y by (rule gemini_sanitize_twice)
  have g3: "\<not> py_in FENCE raw \<longrightarrow> gemini_sanitize y = Inr y"
    using g2 gemini_sanitize_stripped[OF _ y] by (simp add: py_in_sublist)
  have g: "\<exists>y. gemini_sanitize raw = Inr y \<and> gemini_sanitize y = Inr (strip y) \<and>
        (\<not> py_in FENCE raw \<longrightarrow> gemini_sanitize y = Inr y)"
    using y g2 g3 by blast
  define z where "z = remove_fences (strip raw)"
  have "\<not> sublist FENCE (strip z)"
    using remove_fences_no_fence[of "strip raw"] sublist_strip[of z] sublist_order.order_trans
    unfolding z_def by blast
  then have m2: "mercury_sanitize z = Inr (strip z)"
    by (simp add: mercury_sanitize_eq remove_fences_absent)
  have m3: "\<not> py_in FENCE raw \<longrightarrow> strip z = z"
  proof
    assume "\<not> py_in FENCE raw"
    then have "\<not> sublist FENCE (strip raw)"
      unfolding py_in_sublist using sublist_strip sublist_order.order_trans by blast
    then have "z = strip raw" unfolding z_def by (rule remove_fences_absent)
    then show "strip z = z" by (simp add: strip_idem)
  qed
  have m: "\<exists>y. mercury_sanitize raw = Inr y \<and> mercury_sanitize y = Inr (strip y) \<and>
        (\<not> py_in FENCE raw \<longrightarrow> mercury_sanitize y = Inr y)"
    using m2 m3 by (auto simp: mercury_sanitize_eq z_def)
  from g m show ?thesis unfolding groq_sanitize_eq by blast
qed

theorem sanitize_twice_witness:
  "\<not> py_in FENCE (py '' intro <html><p>hello</p> '') \<and>
   (\<exists>y. gemini_sanitize (py '' intro <html><p>hello</p> '') = Inr y \<and> gemini_sanitize y = Inr y)"
proof -
  have "\<not> py_in FENCE (py '' intro <html><p>hello</p> '')" by (simp add: eval_defs)
  then show ?thesis
    using sanitize_twice[of "py '' intro <html><p>hello</p> ''"] by blast
qed

text \<open>
  C9.  The claim is that an input with neither \<open><!DOCTYPE html>\<close> nor \<open><html\<close> comes
  back stripped and otherwise unchanged.  The fences are removed from such an input too.
\<close>

theorem sanitize_without_markers_counterexample:
  "\<not> py_in DOCTYPE (py ''``` a'') \<and> \<not> py_in HTML_TAG (py ''``` a'') \<and>
   strip (py ''``` a'') = py ''``` a'' \<and>
   gemini_sanitize (py ''``` a'') = Inr (py '' a'') \<and>
   gemini_sanitize (py ''``` a'') \<noteq> Inr (strip (py ''``` a''))"
  by (simp add: eval_defs)

text \<open>
  C9, as amended.  For each of the three clean-ups: an input that contains no
  \<open><!DOCTYPE html>\<close>, no \<open><html\<close> and no triple backtick comes back stripped and
  otherwise unchanged; and whenever the stripped input with its fences removed contains
  neither marker, that text is what comes back.  Nothing is raised in either case.
\<close>

theorem sanitize_without_markers:
  "(\<not> py_in DOCTYPE raw \<and> \<not> py_in HTML_TAG raw \<and> \<not> py_in FENCE raw \<longrightarrow>
      gemini_sanitize raw = Inr (strip raw) \<and>
      groq_sanitize raw = Inr (strip raw) \<and>
      mercury_sanitize raw = Inr (strip raw)) \<and>
   (\<not> py_in DOCTYPE (remove_fences (strip raw)) \<and>
    \<not> py_in HTML_TAG (remove_fences (strip raw)) \<longrightarrow>
      gemini_sanitize raw = Inr (remove_fences (strip raw)) \<and>
      groq_sanitize raw = Inr (remove_fences (strip raw)) \<and>
      mercury_sanitize raw = Inr (remove_fences (strip raw)))"
proof -
  have 1: "gemini_sanitize raw = Inr (strip raw) \<and>
      groq_sanitize raw = Inr (strip raw) \<and>
      mercury_sanitize raw = Inr (strip raw)"
    if a: "\<not> py_in DOCTYPE raw \<and> \<not> py_in HTML_TAG raw \<and> \<not> py_in FENCE raw"
  proof -
    have "\<not> sublist FENCE (strip raw)"
      using a unfolding py_in_sublist using sublist_strip sublist_order.order_trans by blast
    then have t: "remove_fences (strip raw) = strip raw" by (rule remove_fences_absent)
    have "\<not> sublist DOCTYPE (strip raw)" "\<not> sublist HTML_TAG (strip raw)"
      using a unfolding py_in_sublist using sublist_strip sublist_order.order_trans by blast+
    then have "gemini_sanitize raw = Inr (strip raw)"
      using gemini_sanitize_cases(3)[of raw] t by simp
    then show ?thesis using t by (simp add: groq_sanitize_eq mercury_sanitize_eq)
  qed
  have 2: "gemini_sanitize raw = Inr (remove_fences (strip raw)) \<and>
      groq_sanitize raw = Inr (remove_fences (strip raw)) \<and>
      mercury_sanitize raw = Inr (remove_fences (strip raw))"
    if "\<not> py_in DOCTYPE (remove_fences (strip raw)) \<and>
        \<not> py_in HTML_TAG (remove_fences (strip raw))"
  proof -
    have "gemini_sanitize raw = Inr (remove_fences (strip raw))"
      using that gemini_sanitize_cases(3)[of raw] by (simp add: py_in_sublist)
    then show ?thesis by (simp add: groq_sanitize_eq mercury_sanitize_eq)
  qed
  from 1 2 show ?thesis by blast
qed

theorem sanitize_without_markers_witness:
  "\<not> py_in DOCTYPE (py ''  <p>hi</p> '') \<and> \<not> py_in HTML_TAG (py ''  <p>hi</p> '') \<and>
   \<not> py_in FENCE (py ''  <p>hi</p> '') \<and>
   gemini_sanitize (py ''  <p>hi</p> '') = Inr (py ''<p>hi</p>'') \<and>
   \<not> py_in DOCTYPE (remove_fences (strip (py ''``` a''))) \<and>
   \<not> py_in HTML_TAG (remove_fences (strip (py ''``` a''))) \<and>
   groq_sanitize (py ''``` a'') = Inr (py '' a'')"
proof -
  have a: "\<not> py_in DOCTYPE (py ''  <p>hi</p> '') \<and> \<not> py_in HTML_TAG (py ''  <p>hi</p> '') \<and>
     \<not> py_in FENCE (py ''  <p>hi</p> '')"
    by (simp add: eval_defs)
  have b: "strip (py ''  <p>hi</p> '') = py ''<p>hi</p>''" by (simp add: eval_defs)
  have c: "\<not> py_in DOCTYPE (remove_fences (strip (py ''``` a''))) \<and>
     \<not> py_in HTML_TAG (remove_fences (strip (py ''``` a'')))"
    by (simp add: eval_defs)
  have d: "remove_fences (strip (py ''``` a'')) = py '' a''" by (simp add: eval_defs)
  have "gemini_sanitize (py ''  <p>hi</p> '') = Inr (py ''<p>hi</p>'')"
    using a b sanitize_without_markers[of "py ''  <p>hi</p> ''"] by simp
  moreover have "groq_sanitize (py ''``` a'') = Inr (py '' a'')"
    using c d sanitize_without_markers[of "py ''``` a''"] by simp
  ultimately show ?thesis using a c by blast
qed

section \<open>Lemmas on the handlers\<close>

lemma replace_single:
  "replace [a] [b] s = map (\<lambda>c. if c = a then b else c) s"
  by (induction s) auto

lemma sublist_prepend: "sublist xs ys \<Longrightarrow> sublist xs (ps @ ys)"
  by (metis sublist_append_leftI sublist_order.order_trans sublist_append_rightI sublist_append)

lemma gemini_generate_calls:
  "upstream_calls (fst (gemini_generate_html_with_llm generate_content st page_prompt)) =
     upstream_calls st @ [[GEMINI_PREAMBLE @ current_system_prompt st @ SEPARATOR @ page_prompt]]"
  by (simp add: gemini_generate_html_with_llm_def gemini_except_def Let_def split: sum.splits)

lemma gemini_generate_prompt:
  "current_system_prompt (fst (gemini_generate_html_with_llm generate_content st page_prompt)) =
     current_system_prompt st"
  by (simp add: gemini_generate_html_with_llm_def gemini_except_def Let_def split: sum.splits)

lemma gemini_generate_fail:
  "generate_content (upstream_calls st @
      [[GEMINI_PREAMBLE @ current_system_prompt st @ SEPARATOR @ page_prompt]]) = Inl e \<Longrightarrow>
   snd (gemini_generate_html_with_llm generate_content st page_prompt) =
     py ''<h1>Error: Could not connect to the Google Gemini API</h1><p>'' @ message e @ py ''</p>''"
  by (simp add: gemini_generate_html_with_llm_def gemini_except_def Let_def)

lemma groq_generate_calls:
  "upstream_calls (fst (groq_generate_html_with_llm create st page_prompt)) =
     upstream_calls st @ [[GROQ_SYSTEM_MESSAGE, current_system_prompt st @ SEPARATOR @ page_prompt]]"
  by (simp add: groq_generate_html_with_llm_def groq_except_def Let_def split: sum.splits)

lemma groq_generate_prompt:
  "current_system_prompt (fst (groq_generate_html_with_llm create st page_prompt)) =
     current_system_prompt st"
  by (simp add: groq_generate_html_with_llm_def groq_except_def Let_def split: sum.splits)

lemma groq_generate_fail:
  "create (upstream_calls st @
      [[GROQ_SYSTEM_MESSAGE, current_system_prompt st @ SEPARATOR @ page_prompt]]) = Inl e \<Longrightarrow>
   snd (groq_generate_html_with_llm create st page_prompt) =
     py ''<h1>Error: Could not connect to the Groq API</h1><p>'' @ message e @ py ''</p>''"
  by (simp add: groq_generate_html_with_llm_def groq_except_def Let_def)

lemma mercury_generate_calls:
  "upstream_calls (fst (mercury_generate_html_with_llm post st page_prompt)) =
     upstream_calls st @ [[current_system_prompt st @ SEPARATOR @ page_prompt]]"
  by (simp add: mercury_generate_html_with_llm_def mercury_except_def mercury_sanitize_eq Let_def
      split: sum.splits)

lemma mercury_generate_prompt:
  "current_system_prompt (fst (mercury_generate_html_with_llm post st page_prompt)) =
     current_system_prompt st"
  by (simp add: mercury_generate_html_with_llm_def mercury_except_def mercury_sanitize_eq Let_def
      split: sum.splits)

lemma mercury_generate_raise:
  "post (upstream_calls st @ [[current_system_prompt st @ SEPARATOR @ page_prompt]]) = Inl e \<Longrightarrow>
   snd (mercury_generate_html_with_llm post st page_prompt) =
     py ''<h1>Error: Could not connect to the Inception Labs API</h1><p>'' @ message e @ py ''</p>''"
  by (simp add: mercury_generate_html_with_llm_def mercury_except_def Let_def)

lemma mercury_generate_malformed:
  "post (upstream_calls st @ [[current_system_prompt st @ SEPARATOR @ page_prompt]]) = Inr response \<Longrightarrow>
   status_code response = 200 \<Longrightarrow> json_content response = Inl e \<Longrightarrow>
   snd (mercury_generate_html_with_llm post st page_prompt) =
     py ''<h1>Error: Could not connect to the Inception Labs API</h1><p>'' @ message e @ py ''</p>''"
  by (simp add: mercury_generate_html_with_llm_def mercury_except_def Let_def)

lemma mercury_generate_status:
  "post (upstream_calls st @ [[current_system_prompt st @ SEPARATOR @ page_prompt]]) = Inr response \<Longrightarrow>
   status_code response \<noteq> 200 \<Longrightarrow>
   snd (mercury_generate_html_with_llm post st page_prompt) =
     py ''<h1>Error: API request failed</h1><p>Status code: '' @ str_int (status_code response) @
     py ''</p>''"
  by (simp add: mercury_generate_html_with_llm_def Let_def)

lemma gemini_catch_all_eq:
  "gemini_catch_all generate_content st path =
     (fst (gemini_generate_html_with_llm generate_content
             (st\<lparr>stdout := stdout st @
                [py ''Generating page for path: /'' @ path,
                 py ''Generated prompt: '' @ gemini_prompt (page_name path)]\<rparr>)
             (gemini_prompt (page_name path))),
      Response
        (snd (gemini_generate_html_with_llm generate_content
             (st\<lparr>stdout := stdout st @
                [py ''Generating page for path: /'' @ path,
                 py ''Generated prompt: '' @ gemini_prompt (page_name path)]\<rparr>)
             (gemini_prompt (page_name path))))
        (py ''text/html''))"
  by (simp add: gemini_catch_all_def Let_def split_beta)

lemma groq_catch_all_eq:
  "groq_catch_all upper create st path =
     (fst (groq_generate_html_with_llm create
             (st\<lparr>stdout := stdout st @
                [py ''Generating page for path: /'' @ path,
                 py ''Generated prompt: '' @ groq_prompt upper (page_name path)]\<rparr>)
             (groq_prompt upper (page_name path))),
      Response
        (snd (groq_generate_html_with_llm create
             (st\<lparr>stdout := stdout st @
                [py ''Generating page for path: /'' @ path,
                 py ''Generated prompt: '' @ groq_prompt upper (page_name path)]\<rparr>)
             (groq_prompt upper (page_name path))))
        (py ''text/html''))"
  by (simp add: groq_catch_all_def Let_def split_beta)

lemma mercury_catch_all_eq:
  "mercury_catch_all post st path =
     (fst (mercury_generate_html_with_llm post
             (st\<lparr>stdout := stdout st @
                [py ''Generating page for path: /'' @ path,
                 py ''Generated prompt: '' @ mercury_prompt (page_name path)]\<rparr>)
             (mercury_prompt (page_name path))),
      Response
        (snd (mercury_generate_html_with_llm post
             (st\<lparr>stdout := stdout st @
                [py ''Generating page for path: /'' @ path,
                 py ''Generated prompt: '' @ mercury_prompt (page_name path)]\<rparr>)
             (mercury_prompt (page_name path))))
        (py ''text/html''))"
  by (simp add: mercury_catch_all_def Let_def split_beta)

lemma catch_all_calls:
  "upstream_calls (fst (gemini_catch_all generate_content st path)) =
     upstream_calls st @
       [[GEMINI_PREAMBLE @ current_system_prompt st @ SEPARATOR @ gemini_prompt (page_name path)]]"
  "upstream_calls (fst (groq_catch_all upper create st path)) =
     upstream_calls st @
       [[GROQ_SYSTEM_MESSAGE,
         current_system_prompt st @ SEPARATOR @ groq_prompt upper (page_name path)]]"
  "upstream_calls (fst (mercury_catch_all post st path)) =
     upstream_calls st @
       [[current_system_prompt st @ SEPARATOR @ mercury_prompt (page_name path)]]"
  by (simp_all add: gemini_catch_all_eq groq_catch_all_eq mercury_catch_all_eq
      gemini_generate_calls groq_generate_calls mercury_generate_calls)

lemma catch_all_prompt:
  "current_system_prompt (fst (gemini_catch_all generate_content st path)) = current_system_prompt st"
  "current_system_prompt (fst (groq_catch_all upper create st path)) = current_system_prompt st"
  "current_system_prompt (fst (mercury_catch_all post st path)) = current_system_prompt st"
  by (simp_all add: gemini_catch_all_eq groq_catch_all_eq mercury_catch_all_eq
      gemini_generate_prompt groq_generate_prompt mercury_generate_prompt)

lemma change_prompt_nonempty:
  "current_system_prompt st \<noteq> [] \<Longrightarrow> current_system_prompt (fst (change_prompt st request)) \<noteq> []"
  by (simp add: change_prompt_def Let_def split: option.splits)

lemma serve_nonempty:
  assumes "current_system_prompt st \<noteq> []"
  shows "current_system_prompt (fst (gemini_serve generate_content st r)) \<noteq> []"
    and "current_system_prompt (fst (groq_serve upper create st r)) \<noteq> []"
    and "current_system_prompt (fst (mercury_serve post st r)) \<noteq> []"
  using assms change_prompt_nonempty[OF assms]
  by (simp_all add: gemini_serve_def groq_serve_def mercury_serve_def catch_all_prompt split_beta
      split: http_request.splits)

lemma gemini_run_nonempty:
  "current_system_prompt st \<noteq> [] \<Longrightarrow>
   current_system_prompt (gemini_run generate_content st requests) \<noteq> []"
  by (induction requests arbitrary: st) (simp_all add: serve_nonempty)

lemma groq_run_nonempty:
  "current_system_prompt st \<noteq> [] \<Longrightarrow>
   current_system_prompt (groq_run upper create st requests) \<noteq> []"
  by (induction requests arbitrary: st) (simp_all add: serve_nonempty)

lemma mercury_run_nonempty:
  "current_system_prompt st \<noteq> [] \<Longrightarrow>
   current_system_prompt (mercury_run post st requests) \<noteq> []"
  by (induction requests arbitrary: st) (simp_all add: serve_nonempty)

lemma initial_prompt_nonempty:
  "gemini_initial_prompt \<noteq> []" "groq_initial_prompt \<noteq> []" "mercury_initial_prompt \<noteq> []"
  by (simp_all add: gemini_initial_prompt_def groq_initial_prompt_def mercury_initial_prompt_def
      py_def)

lemma form_contains_prompt: "py_in (current_system_prompt st) (change_prompt_form st)"
  unfolding py_in_sublist change_prompt_form_def
  by (intro sublist_append_rightI sublist_prepend)

lemma GET_not_POST: "py ''GET'' \<noteq> py ''POST''"
  by (simp add: py_def)

lemma startup_prompt:
  "gemini_startup environ = Serving st \<Longrightarrow> current_system_prompt st = gemini_initial_prompt"
  "groq_startup environ = Serving st \<Longrightarrow> current_system_prompt st = groq_initial_prompt"
  "mercury_startup environ = Serving st \<Longrightarrow> current_system_prompt st = mercury_initial_prompt"
  unfolding gemini_startup_def groq_startup_def mercury_startup_def Let_def
  by (auto split: if_splits)

section \<open>The routes: claims\<close>

text \<open>
  C4.  The page name of the empty path is \<open>"home"\<close>.  The page name of a non-empty path
  is the path with every \<open>/\<close> turned into a space and then every \<open>_\<close> turned into a
  space, which is the path with each of these two characters turned into a space and
  every other character kept; \<open>"a/b_c"\<close> gives \<open>"a b c"\<close>.
\<close>

theorem page_name_translation:
  "page_name [] = py ''home'' \<and>
   (path \<noteq> [] \<longrightarrow>
      page_name path =
        map (\<lambda>c. if c = of_char CHR ''_'' then of_char CHR '' '' else c)
          (map (\<lambda>c. if c = of_char CHR ''/'' then of_char CHR '' '' else c) path) \<and>
      page_name path =
        map (\<lambda>c. if c = of_char CHR ''/'' \<or> c = of_char CHR ''_'' then of_char CHR '' '' else c)
          path) \<and>
   page_name (py ''a/b_c'') = py ''a b c''"
proof -
  have 1: "page_name [] = py ''home''" by (simp add: page_name_def)
  have 2: "page_name path =
        map (\<lambda>c. if c = of_char CHR ''_'' then of_char CHR '' '' else c)
          (map (\<lambda>c. if c = of_char CHR ''/'' then of_char CHR '' '' else c) path)"
    if "path \<noteq> []"
    using that by (simp add: page_name_def py_def replace_single)
  have 3: "map (\<lambda>c. if c = of_char CHR ''_'' then of_char CHR '' '' else c)
          (map (\<lambda>c. if c = of_char CHR ''/'' then of_char CHR '' '' else c) path) =
        map (\<lambda>c. if c = of_char CHR ''/'' \<or> c = of_char CHR ''_'' then of_char CHR '' '' else (c::nat))
          path"
    by (induction path) simp_all
  have 4: "page_name (py ''a/b_c'') = py ''a b c''"
    by (simp add: page_name_def py_def)
  from 1 2 3 4 show ?thesis by simp
qed

theorem page_name_translation_witness:
  "py ''products/vintage_cameras'' \<noteq> [] \<and>
   page_name (py ''products/vintage_cameras'') = py ''products vintage cameras''"
proof -
  have "py ''products/vintage_cameras'' \<noteq> []" by (simp add: py_def)
  then show ?thesis
    using page_name_translation[of "py ''products/vintage_cameras''"] by (simp add: py_def)
qed



text \<open>
  C5.  A POST to \<open>/change-prompt\<close> whose field \<open>new_prompt\<close> is a non-empty text \<open>x\<close>
  stores exactly \<open>x\<close> as the system prompt and answers with the confirmation page; a GET
  after it leaves the state as it is and answers with the form, in which \<open>x\<close> occurs.
  A POST whose field is empty or absent leaves the state as it is and answers with
  the form of a GET.
\<close>

theorem change_prompt_editor:
  "(http_method post_request = py ''POST'' \<and> form post_request (py ''new_prompt'') = Some x \<and>
    x \<noteq> [] \<longrightarrow>
      change_prompt st post_request = (st\<lparr>current_system_prompt := x\<rparr>, PROMPT_UPDATED_PAGE) \<and>
      current_system_prompt (fst (change_prompt st post_request)) = x \<and>
      (http_method get_request = py ''GET'' \<longrightarrow>
         change_prompt (fst (change_prompt st post_request)) get_request =
           (fst (change_prompt st post_request),
            change_prompt_form (fst (change_prompt st post_request))) \<and>
         py_in x (snd (change_prompt (fst (change_prompt st post_request)) get_request)))) \<and>
   (http_method post_request = py ''POST'' \<and>
    (form post_request (py ''new_prompt'') = None \<or>
     form post_request (py ''new_prompt'') = Some []) \<longrightarrow>
      change_prompt st post_request = (st, change_prompt_form st)) \<and>
   (http_method get_request = py ''GET'' \<longrightarrow>
      change_prompt st get_request = (st, change_prompt_form st))"
proof -
  have g: "change_prompt s get_request = (s, change_prompt_form s)"
    if "http_method get_request = py ''GET''" for s
    using that GET_not_POST by (simp add: change_prompt_def)
  have p: "change_prompt st post_request = (st\<lparr>current_system_prompt := x\<rparr>, PROMPT_UPDATED_PAGE)"
    if "http_method post_request = py ''POST'' \<and> form post_request (py ''new_prompt'') = Some x \<and>
        x \<noteq> []"
    using that by (simp add: change_prompt_def)
  have c: "py_in x (change_prompt_form (st\<lparr>current_system_prompt := x\<rparr>))"
    using form_contains_prompt[of "st\<lparr>current_system_prompt := x\<rparr>"] by simp
  have e: "change_prompt st post_request = (st, change_prompt_form st)"
    if "http_method post_request = py ''POST'' \<and>
        (form post_request (py ''new_prompt'') = None \<or>
         form post_request (py ''new_prompt'') = Some [])"
    using that by (auto simp add: change_prompt_def)
  show ?thesis
  proof (intro conjI impI)
    assume a: "http_method post_request = py ''POST'' \<and>
      form post_request (py ''new_prompt'') = Some x \<and> x \<noteq> []"
    show "change_prompt st post_request = (st\<lparr>current_system_prompt := x\<rparr>, PROMPT_UPDATED_PAGE)"
      using p[OF a] .
    show "current_system_prompt (fst (change_prompt st post_request)) = x"
      using p[OF a] by simp
    assume b: "http_method get_request = py ''GET''"
    show "change_prompt (fst (change_prompt st post_request)) get_request =
           (fst (change_prompt st post_request),
            change_prompt_form (fst (change_prompt st post_request)))"
      using g[OF b] .
    show "py_in x (snd (change_prompt (fst (change_prompt st post_request)) get_request))"
      using g[OF b] p[OF a] c by simp
  next
    assume "http_method post_request = py ''POST'' \<and>
      (form post_request (py ''new_prompt'') = None \<or>
       form post_request (py ''new_prompt'') = Some [])"
    then show "change_prompt st post_request = (st, change_prompt_form st)" by (rule e)
  next
    assume "http_method get_request = py ''GET''"
    then show "change_prompt st get_request = (st, change_prompt_form st)" by (rule g)
  qed
qed

theorem change_prompt_editor_witness:
  "current_system_prompt
     (fst (change_prompt
        \<lparr>api_key = py ''k'', current_system_prompt = py ''old'', stdout = [], upstream_calls = []\<rparr>
        \<lparr>http_method = py ''POST'', form = [py ''new_prompt'' \<mapsto> py ''X'']\<rparr>)) = py ''X'' \<and>
   py_in (py ''X'')
     (snd (change_prompt
        (fst (change_prompt
           \<lparr>api_key = py ''k'', current_system_prompt = py ''old'', stdout = [], upstream_calls = []\<rparr>
           \<lparr>http_method = py ''POST'', form = [py ''new_prompt'' \<mapsto> py ''X'']\<rparr>))
        \<lparr>http_method = py ''GET'', form = Map.empty\<rparr>)) \<and>
   fst (change_prompt
        \<lparr>api_key = py ''k'', current_system_prompt = py ''old'', stdout = [], upstream_calls = []\<rparr>
        \<lparr>http_method = py ''POST'', form = [py ''new_prompt'' \<mapsto> []]\<rparr>) =
     \<lparr>api_key = py ''k'', current_system_prompt = py ''old'', stdout = [], upstream_calls = []\<rparr>"
proof -
  let ?st = "\<lparr>api_key = py ''k'', current_system_prompt = py ''old'', stdout = [],
    upstream_calls = []\<rparr>"
  let ?post = "\<lparr>http_method = py ''POST'', form = [py ''new_prompt'' \<mapsto> py ''X'']\<rparr>"
  let ?empty = "\<lparr>http_method = py ''POST'', form = [py ''new_prompt'' \<mapsto> []]\<rparr>"
  let ?get = "\<lparr>http_method = py ''GET'', form = Map.empty\<rparr>"
  have h1: "http_method ?post = py ''POST'' \<and> form ?post (py ''new_prompt'') = Some (py ''X'') \<and>
    py ''X'' \<noteq> []"
    by (simp add: py_def)
  have h2: "http_method ?get = py ''GET''" by simp
  have h3: "http_method ?empty = py ''POST'' \<and>
    (form ?empty (py ''new_prompt'') = None \<or> form ?empty (py ''new_prompt'') = Some [])"
    by simp
  have 1: "current_system_prompt (fst (change_prompt ?st ?post)) = py ''X'' \<and>
    py_in (py ''X'') (snd (change_prompt (fst (change_prompt ?st ?post)) ?get))"
    using h1 h2 change_prompt_editor[of ?post "py ''X''" ?st ?get] by blast
  have "change_prompt ?st ?empty = (?st, change_prompt_form ?st)"
    using h3 change_prompt_editor[of ?empty "[]" ?st ?get] by blast
  then have 2: "fst (change_prompt ?st ?empty) = ?st" by simp
  from 1 2 show ?thesis by blast
qed

text \<open>
  C8.  For every stored system prompt and every path, the text that \<open>catch_all\<close> sends to
  the model is the stored prompt, then the separator
  \<open>"\n\n---USER REQUEST---\n"\<close>, then the page template of the variant filled with the
  page name; \<open>app-gemini.py\<close> puts its fixed preamble before it, \<open>app-groq.py\<close> sends its
  fixed preamble as a system message of its own.  After a POST to \<open>/change-prompt\<close> with
  a non-empty \<open>new_prompt\<close> \<open>x\<close>, the next page request sends \<open>x\<close> in that place.
\<close>

theorem composed_prompt:
  "upstream_calls (fst (gemini_catch_all generate_content st path)) =
     upstream_calls st @
       [[GEMINI_PREAMBLE @ current_system_prompt st @ SEPARATOR @ gemini_prompt (page_name path)]] \<and>
   upstream_calls (fst (groq_catch_all upper create st path)) =
     upstream_calls st @
       [[GROQ_SYSTEM_MESSAGE,
         current_system_prompt st @ SEPARATOR @ groq_prompt upper (page_name path)]] \<and>
   upstream_calls (fst (mercury_catch_all post st path)) =
     upstream_calls st @
       [[current_system_prompt st @ SEPARATOR @ mercury_prompt (page_name path)]] \<and>
   SEPARATOR = py ''\<newline>\<newline>---USER REQUEST---\<newline>'' \<and>
   (http_method request = py ''POST'' \<and> form request (py ''new_prompt'') = Some x \<and> x \<noteq> [] \<longrightarrow>
      upstream_calls (gemini_run generate_content st [ChangePrompt request, CatchAll path]) =
        upstream_calls st @ [[GEMINI_PREAMBLE @ x @ SEPARATOR @ gemini_prompt (page_name path)]] \<and>
      upstream_calls (groq_run upper create st [ChangePrompt request, CatchAll path]) =
        upstream_calls st @
          [[GROQ_SYSTEM_MESSAGE, x @ SEPARATOR @ groq_prompt upper (page_name path)]] \<and>
      upstream_calls (mercury_run post st [ChangePrompt request, CatchAll path]) =
        upstream_calls st @ [[x @ SEPARATOR @ mercury_prompt (page_name path)]])"
proof -
  have c: "fst (change_prompt st request) = st\<lparr>current_system_prompt := x\<rparr>"
    if "http_method request = py ''POST'' \<and> form request (py ''new_prompt'') = Some x \<and> x \<noteq> []"
    using that by (simp add: change_prompt_def)
  have r: "upstream_calls (gemini_run generate_content st [ChangePrompt request, CatchAll path]) =
        upstream_calls st @ [[GEMINI_PREAMBLE @ x @ SEPARATOR @ gemini_prompt (page_name path)]] \<and>
      upstream_calls (groq_run upper create st [ChangePrompt request, CatchAll path]) =
        upstream_calls st @
          [[GROQ_SYSTEM_MESSAGE, x @ SEPARATOR @ groq_prompt upper (page_name path)]] \<and>
      upstream_calls (mercury_run post st [ChangePrompt request, CatchAll path]) =
        upstream_calls st @ [[x @ SEPARATOR @ mercury_prompt (page_name path)]]"
    if "http_method request = py ''POST'' \<and> form request (py ''new_prompt'') = Some x \<and> x \<noteq> []"
    using c[OF that]
    by (simp add: gemini_serve_def groq_serve_def mercury_serve_def split_beta catch_all_calls)
  show ?thesis
    using r by (simp add: catch_all_calls SEPARATOR_def)
qed

theorem composed_prompt_witness:
  "upstream_calls
     (gemini_run (\<lambda>calls. Inr (py ''<html></html>''))
        \<lparr>api_key = py ''k'', current_system_prompt = py ''old'', stdout = [], upstream_calls = []\<rparr>
        [ChangePrompt \<lparr>http_method = py ''POST'', form = [py ''new_prompt'' \<mapsto> py ''X'']\<rparr>,
         CatchAll (py ''a/b_c'')]) =
   [[GEMINI_PREAMBLE @ py ''X'' @ SEPARATOR @ gemini_prompt (py ''a b c'')]]"
proof -
  let ?st = "\<lparr>api_key = py ''k'', current_system_prompt = py ''old'', stdout = [],
    upstream_calls = []\<rparr>"
  let ?post = "\<lparr>http_method = py ''POST'', form = [py ''new_prompt'' \<mapsto> py ''X'']\<rparr>"
  have h: "http_method ?post = py ''POST'' \<and> form ?post (py ''new_prompt'') = Some (py ''X'') \<and>
    py ''X'' \<noteq> []"
    by (simp add: py_def)
  have p: "page_name (py ''a/b_c'') = py ''a b c''" by (simp add: page_name_def py_def)
  have "upstream_calls
     (gemini_run (\<lambda>calls. Inr (py ''<html></html>'')) ?st [ChangePrompt ?post, CatchAll (py ''a/b_c'')]) =
     upstream_calls ?st @
       [[GEMINI_PREAMBLE @ py ''X'' @ SEPARATOR @ gemini_prompt (page_name (py ''a/b_c''))]]"
    using h composed_prompt[of "\<lambda>calls. Inr (py ''<html></html>'')" ?st "py ''a/b_c''" _ _ _ ?post "py ''X''"]
    by blast
  then show ?thesis using p by simp
qed

text \<open>
  C2.  When the call to the model fails in \<open>catch_all\<close> (the client raises; in
  \<open>app-mercury.py\<close> also: the status is not 200, or the status is 200 and the body
  cannot be decoded), the route returns a response with status 200, mimetype
  \<open>text/html\<close> and as body an \<open><h1>\<close> error heading followed by the failure detail in a
  \<open><p>\<close>.  The route returns: no exception leaves it.  Exactly one call was made,
  and the system prompt is what it was.
\<close>

theorem adapter_failure_page:
  "(generate_content
      (upstream_calls st @
        [[GEMINI_PREAMBLE @ current_system_prompt st @ SEPARATOR @ gemini_prompt (page_name path)]]) =
      Inl e \<longrightarrow>
      snd (gemini_catch_all generate_content st path) =
        \<lparr>body = py ''<h1>Error: Could not connect to the Google Gemini API</h1><p>'' @ message e @
                 py ''</p>'',
         status = 200, mimetype = py ''text/html''\<rparr> \<and>
      upstream_calls (fst (gemini_catch_all generate_content st path)) =
        upstream_calls st @
          [[GEMINI_PREAMBLE @ current_system_prompt st @ SEPARATOR @ gemini_prompt (page_name path)]] \<and>
      current_system_prompt (fst (gemini_catch_all generate_content st path)) =
        current_system_prompt st) \<and>
   (create
      (upstream_calls st @
        [[GROQ_SYSTEM_MESSAGE,
          current_system_prompt st @ SEPARATOR @ groq_prompt upper (page_name path)]]) =
      Inl e \<longrightarrow>
      snd (groq_catch_all upper create st path) =
        \<lparr>body = py ''<h1>Error: Could not connect to the Groq API</h1><p>'' @ message e @
                 py ''</p>'',
         status = 200, mimetype = py ''text/html''\<rparr> \<and>
      upstream_calls (fst (groq_catch_all upper create st path)) =
        upstream_calls st @
          [[GROQ_SYSTEM_MESSAGE,
            current_system_prompt st @ SEPARATOR @ groq_prompt upper (page_name path)]] \<and>
      current_system_prompt (fst (groq_catch_all upper create st path)) =
        current_system_prompt st) \<and>
   (post
      (upstream_calls st @
        [[current_system_prompt st @ SEPARATOR @ mercury_prompt (page_name path)]]) = Inl e \<or>
    post
      (upstream_calls st @
        [[current_system_prompt st @ SEPARATOR @ mercury_prompt (page_name path)]]) = Inr response \<and>
    status_code response = 200 \<and> json_content response = Inl e \<longrightarrow>
      snd (mercury_catch_all post st path) =
        \<lparr>body = py ''<h1>Error: Could not connect to the Inception Labs API</h1><p>'' @ message e @
                 py ''</p>'',
         status = 200, mimetype = py ''text/html''\<rparr> \<and>
      upstream_calls (fst (mercury_catch_all post st path)) =
        upstream_calls st @
          [[current_system_prompt st @ SEPARATOR @ mercury_prompt (page_name path)]] \<and>
      current_system_prompt (fst (mercury_catch_all post st path)) = current_system_prompt st) \<and>
   (post
      (upstream_calls st @
        [[current_system_prompt st @ SEPARATOR @ mercury_prompt (page_name path)]]) = Inr response \<and>
    status_code response \<noteq> 200 \<longrightarrow>
      snd (mercury_catch_all post st path) =
        \<lparr>body = py ''<h1>Error: API request failed</h1><p>Status code: '' @
                 str_int (status_code response) @ py ''</p>'',
         status = 200, mimetype = py ''text/html''\<rparr> \<and>
      upstream_calls (fst (mercury_catch_all post st path)) =
        upstream_calls st @
          [[current_system_prompt st @ SEPARATOR @ mercury_prompt (page_name path)]] \<and>
      current_system_prompt (fst (mercury_catch_all post st path)) = current_system_prompt st)"
proof -
  let ?pr = "\<lambda>prompt. st\<lparr>stdout := stdout st @
      [py ''Generating page for path: /'' @ path, py ''Generated prompt: '' @ prompt]\<rparr>"
  have g: "snd (gemini_catch_all generate_content st path) =
        \<lparr>body = py ''<h1>Error: Could not connect to the Google Gemini API</h1><p>'' @ message e @
                 py ''</p>'',
         status = 200, mimetype = py ''text/html''\<rparr>"
    if "generate_content
      (upstream_calls st @
        [[GEMINI_PREAMBLE @ current_system_prompt st @ SEPARATOR @ gemini_prompt (page_name path)]]) =
      Inl e"
    using that gemini_generate_fail[of generate_content "?pr (gemini_prompt (page_name path))"
        "gemini_prompt (page_name path)" e]
    by (simp add: gemini_catch_all_eq Response_def)
  have q: "snd (groq_catch_all upper create st path) =
        \<lparr>body = py ''<h1>Error: Could not connect to the Groq API</h1><p>'' @ message e @
                 py ''</p>'',
         status = 200, mimetype = py ''text/html''\<rparr>"
    if "create
      (upstream_calls st @
        [[GROQ_SYSTEM_MESSAGE,
          current_system_prompt st @ SEPARATOR @ groq_prompt upper (page_name path)]]) = Inl e"
    using that groq_generate_fail[of create "?pr (groq_prompt upper (page_name path))"
        "groq_prompt upper (page_name path)" e]
    by (simp add: groq_catch_all_eq Response_def)
  have m1: "snd (mercury_catch_all post st path) =
        \<lparr>body = py ''<h1>Error: Could not connect to the Inception Labs API</h1><p>'' @ message e @
                 py ''</p>'',
         status = 200, mimetype = py ''text/html''\<rparr>"
    if "post
      (upstream_calls st @
        [[current_system_prompt st @ SEPARATOR @ mercury_prompt (page_name path)]]) = Inl e \<or>
    post
      (upstream_calls st @
        [[current_system_prompt st @ SEPARATOR @ mercury_prompt (page_name path)]]) = Inr response \<and>
    status_code response = 200 \<and> json_content response = Inl e"
    using that
      mercury_generate_raise[of post "?pr (mercury_prompt (page_name path))"
        "mercury_prompt (page_name path)" e]
      mercury_generate_malformed[of post "?pr (mercury_prompt (page_name path))"
        "mercury_prompt (page_name path)" response e]
    by (auto simp add: mercury_catch_all_eq Response_def)
  have m2: "snd (mercury_catch_all post st path) =
        \<lparr>body = py ''<h1>Error: API request failed</h1><p>Status code: '' @
                 str_int (status_code response) @ py ''</p>'',
         status = 200, mimetype = py ''text/html''\<rparr>"
    if "post
      (upstream_calls st @
        [[current_system_prompt st @ SEPARATOR @ mercury_prompt (page_name path)]]) = Inr response \<and>
    status_code response \<noteq> 200"
    using that
      mercury_generate_status[of post "?pr (mercury_prompt (page_name path))"
        "mercury_prompt (page_name path)" response]
    by (simp add: mercury_catch_all_eq Response_def)
  show ?thesis
    using g q m1 m2 by (simp add: catch_all_calls catch_all_prompt)
qed

theorem adapter_failure_page_witness:
  "snd (gemini_catch_all (\<lambda>calls. Inl (Exception (py ''timed out'')))
          \<lparr>api_key = py ''k'', current_system_prompt = py ''S'', stdout = [], upstream_calls = []\<rparr>
          (py ''anything'')) =
     \<lparr>body = py ''<h1>Error: Could not connect to the Google Gemini API</h1><p>timed out</p>'',
      status = 200, mimetype = py ''text/html''\<rparr> \<and>
   snd (mercury_catch_all
          (\<lambda>calls. Inr \<lparr>status_code = 503, response_text = py ''busy'',
                          json_content = Inl (Exception (py ''no JSON''))\<rparr>)
          \<lparr>api_key = py ''k'', current_system_prompt = py ''S'', stdout = [], upstream_calls = []\<rparr>
          (py ''anything'')) =
     \<lparr>body = py ''<h1>Error: API request failed</h1><p>Status code: 503</p>'',
      status = 200, mimetype = py ''text/html''\<rparr>"
proof -
  let ?st = "\<lparr>api_key = py ''k'', current_system_prompt = py ''S'', stdout = [],
    upstream_calls = []\<rparr>"
  let ?gc = "\<lambda>calls::str list list. (Inl (Exception (py ''timed out'')) :: exn + str)"
  let ?resp = "\<lparr>status_code = 503, response_text = py ''busy'',
    json_content = Inl (Exception (py ''no JSON''))\<rparr>"
  let ?post = "\<lambda>calls::str list list. (Inr ?resp :: exn + http_response)"
  have s: "str_int 503 = py ''503''"
    by (simp add: str_int_def str_nat.simps py_def)
  have 1: "snd (gemini_catch_all ?gc ?st (py ''anything'')) =
     \<lparr>body = py ''<h1>Error: Could not connect to the Google Gemini API</h1><p>'' @
        message (Exception (py ''timed out'')) @ py ''</p>'',
      status = 200, mimetype = py ''text/html''\<rparr>"
    using adapter_failure_page[of ?gc ?st "py ''anything''" "Exception (py ''timed out'')"]
    by simp
  have h: "?post (upstream_calls ?st @
        [[current_system_prompt ?st @ SEPARATOR @ mercury_prompt (page_name (py ''anything''))]]) =
      Inr ?resp \<and> status_code ?resp \<noteq> 200"
    by simp
  have 2: "snd (mercury_catch_all ?post ?st (py ''anything'')) =
     \<lparr>body = py ''<h1>Error: API request failed</h1><p>Status code: '' @
        str_int (status_code ?resp) @ py ''</p>'',
      status = 200, mimetype = py ''text/html''\<rparr>"
    using h adapter_failure_page[of _ ?st "py ''anything''" _ _ _ ?post ?resp]
    by blast
  from 1 2 s show ?thesis by (simp add: py_def)
qed

text \<open>
  C6.  The stored system prompt is not empty when the application starts to serve, and
  it is not empty after any sequence of requests to \<open>/change-prompt\<close> (of any method,
  with any form) and to the catch-all route, whatever the model answers: each request
  keeps a non-empty prompt non-empty.
\<close>

theorem system_prompt_never_empty:
  "(gemini_startup environ = Serving st \<longrightarrow>
      current_system_prompt st \<noteq> [] \<and>
      current_system_prompt (gemini_run generate_content st requests) \<noteq> []) \<and>
   (groq_startup environ = Serving st \<longrightarrow>
      current_system_prompt st \<noteq> [] \<and>
      current_system_prompt (groq_run upper create st requests) \<noteq> []) \<and>
   (mercury_startup environ = Serving st \<longrightarrow>
      current_system_prompt st \<noteq> [] \<and>
      current_system_prompt (mercury_run post st requests) \<noteq> []) \<and>
   (current_system_prompt st \<noteq> [] \<longrightarrow>
      current_system_prompt (fst (gemini_serve generate_content st r)) \<noteq> [] \<and>
      current_system_prompt (fst (groq_serve upper create st r)) \<noteq> [] \<and>
      current_system_prompt (fst (mercury_serve post st r)) \<noteq> [])"
proof -
  have g: "current_system_prompt st \<noteq> [] \<and>
      current_system_prompt (gemini_run generate_content st requests) \<noteq> []"
    if "gemini_startup environ = Serving st"
  proof -
    have "current_system_prompt st \<noteq> []"
      using startup_prompt(1)[OF that] initial_prompt_nonempty(1) by simp
    then show ?thesis using gemini_run_nonempty by simp
  qed
  have q: "current_system_prompt st \<noteq> [] \<and>
      current_system_prompt (groq_run upper create st requests) \<noteq> []"
    if "groq_startup environ = Serving st"
  proof -
    have "current_system_prompt st \<noteq> []"
      using startup_prompt(2)[OF that] initial_prompt_nonempty(2) by simp
    then show ?thesis using groq_run_nonempty by simp
  qed
  have m: "current_system_prompt st \<noteq> [] \<and>
      current_system_prompt (mercury_run post st requests) \<noteq> []"
    if "mercury_startup environ = Serving st"
  proof -
    have "current_system_prompt st \<noteq> []"
      using startup_prompt(3)[OF that] initial_prompt_nonempty(3) by simp
    then show ?thesis using mercury_run_nonempty by simp
  qed
  have s: "current_system_prompt (fst (gemini_serve generate_content st r)) \<noteq> [] \<and>
      current_system_prompt (fst (groq_serve upper create st r)) \<noteq> [] \<and>
      current_system_prompt (fst (mercury_serve post st r)) \<noteq> []"
    if "current_system_prompt st \<noteq> []"
    using serve_nonempty[OF that] by simp
  from g q m s show ?thesis by blast
qed

theorem system_prompt_never_empty_witness:
  "(\<exists>st. gemini_startup [py ''GOOGLE_API_KEY'' \<mapsto> py ''key-0123456789''] = Serving st \<and>
      current_system_prompt
        (gemini_run (\<lambda>calls. Inl (Exception []))  st
           [ChangePrompt \<lparr>http_method = py ''POST'', form = [py ''new_prompt'' \<mapsto> []]\<rparr>,
            CatchAll (py ''about''),
            ChangePrompt \<lparr>http_method = py ''POST'', form = Map.empty\<rparr>]) \<noteq> [])"
proof -
  obtain st where st: "gemini_startup [py ''GOOGLE_API_KEY'' \<mapsto> py ''key-0123456789''] = Serving st"
    by (simp add: gemini_startup_def environ_get_def Let_def py_def)
  then show ?thesis
    using system_prompt_never_empty[of "[py ''GOOGLE_API_KEY'' \<mapsto> py ''key-0123456789'']" st]
    by blast
qed

end
